theory Spec2Isabelle
  imports Complex_Main "HOL-Library.Word" "HOL-Library.Signed_Division"
begin

unbundle bit_operations_syntax

section \<open>Vectors, quaternions and matrices\<close>

text \<open>
  The session computes with glm's \<open>vec3\<close>, \<open>vec4\<close>, \<open>quat\<close> and \<open>mat4\<close>.
  Their \<open>float\<close> components are idealised as real numbers: rounding is not modelled.
  A \<open>mat4\<close> is stored by columns, as glm does (\<open>m[c][r]\<close> is row \<open>r\<close> of column
  \<open>c\<close>); a \<open>quat\<close> is written w, x, y, z.
\<close>

datatype vec3 = Vec3 (vx: real) (vy: real) (vz: real)

datatype vec4 = Vec4 (v4x: real) (v4y: real) (v4z: real) (v4w: real)

datatype quat = Quat (qw: real) (qx: real) (qy: real) (qz: real)

datatype mat4 = Mat4 (col0: vec4) (col1: vec4) (col2: vec4) (col3: vec4)

datatype ivec2 = IVec2 (ix: int) (iy: int)

definition vec3_add :: "vec3 \<Rightarrow> vec3 \<Rightarrow> vec3" where
  "vec3_add a b = Vec3 (vx a + vx b) (vy a + vy b) (vz a + vz b)"

definition vec3_sub :: "vec3 \<Rightarrow> vec3 \<Rightarrow> vec3" where
  "vec3_sub a b = Vec3 (vx a - vx b) (vy a - vy b) (vz a - vz b)"

definition vec3_smul :: "vec3 \<Rightarrow> real \<Rightarrow> vec3" where
  "vec3_smul a k = Vec3 (vx a * k) (vy a * k) (vz a * k)"

definition dot3 :: "vec3 \<Rightarrow> vec3 \<Rightarrow> real" where
  "dot3 a b = vx a * vx b + vy a * vy b + vz a * vz b"

definition cross :: "vec3 \<Rightarrow> vec3 \<Rightarrow> vec3" where
  "cross a b = Vec3 (vy a * vz b - vy b * vz a)
                    (vz a * vx b - vz b * vx a)
                    (vx a * vy b - vx b * vy a)"

text \<open>\<open>glm::normalize\<close> multiplies by the inverse square root of the squared length.\<close>

definition normalize3 :: "vec3 \<Rightarrow> vec3" where
  "normalize3 a = vec3_smul a (1 / sqrt (dot3 a a))"

text \<open>The conversions \<open>vec3( v4 )\<close> (drop w) and \<open>vec4( v3, w )\<close>.\<close>

definition vec3_of :: "vec4 \<Rightarrow> vec3" where
  "vec3_of v = Vec3 (v4x v) (v4y v) (v4z v)"

definition vec4_of :: "vec3 \<Rightarrow> real \<Rightarrow> vec4" where
  "vec4_of v w = Vec4 (vx v) (vy v) (vz v) w"

definition vec4_add :: "vec4 \<Rightarrow> vec4 \<Rightarrow> vec4" where
  "vec4_add a b = Vec4 (v4x a + v4x b) (v4y a + v4y b) (v4z a + v4z b) (v4w a + v4w b)"

definition vec4_smul :: "vec4 \<Rightarrow> real \<Rightarrow> vec4" where
  "vec4_smul a k = Vec4 (v4x a * k) (v4y a * k) (v4z a * k) (v4w a * k)"

text \<open>\<open>m * v\<close>: the linear combination of the columns of \<open>m\<close>.\<close>

definition mat4_mul_vec4 :: "mat4 \<Rightarrow> vec4 \<Rightarrow> vec4" where
  "mat4_mul_vec4 m v =
     vec4_add (vec4_add (vec4_smul (col0 m) (v4x v)) (vec4_smul (col1 m) (v4y v)))
              (vec4_add (vec4_smul (col2 m) (v4z v)) (vec4_smul (col3 m) (v4w v)))"

text \<open>\<open>a * b\<close>: column \<open>j\<close> of the product is \<open>a\<close> applied to column \<open>j\<close> of \<open>b\<close>.\<close>

definition mat4_mul :: "mat4 \<Rightarrow> mat4 \<Rightarrow> mat4" where
  "mat4_mul a b = Mat4 (mat4_mul_vec4 a (col0 b)) (mat4_mul_vec4 a (col1 b))
                       (mat4_mul_vec4 a (col2 b)) (mat4_mul_vec4 a (col3 b))"

definition mat4_identity :: mat4 where
  "mat4_identity = Mat4 (Vec4 1 0 0 0) (Vec4 0 1 0 0) (Vec4 0 0 1 0) (Vec4 0 0 0 1)"

definition quat_identity :: quat where
  "quat_identity = Quat 1 0 0 0"

text \<open>\<open>glm::toMat4\<close> (\<open>mat4_cast\<close>): the rotation matrix of a quaternion.\<close>

definition toMat4 :: "quat \<Rightarrow> mat4" where
  "toMat4 q =
     (let qxx = qx q * qx q; qyy = qy q * qy q; qzz = qz q * qz q;
          qxz = qx q * qz q; qxy = qx q * qy q; qyz = qy q * qz q;
          qwx = qw q * qx q; qwy = qw q * qy q; qwz = qw q * qz q
      in Mat4 (Vec4 (1 - 2 * (qyy + qzz)) (2 * (qxy + qwz)) (2 * (qxz - qwy)) 0)
              (Vec4 (2 * (qxy - qwz)) (1 - 2 * (qxx + qzz)) (2 * (qyz + qwx)) 0)
              (Vec4 (2 * (qxz + qwy)) (2 * (qyz - qwx)) (1 - 2 * (qxx + qyy)) 0)
              (Vec4 0 0 0 1))"

text \<open>\<open>glm::lookAt\<close>, right-handed.\<close>

definition lookAt :: "vec3 \<Rightarrow> vec3 \<Rightarrow> vec3 \<Rightarrow> mat4" where
  "lookAt eye center up =
     (let f = normalize3 (vec3_sub center eye);
          s = normalize3 (cross f up);
          u = cross s f
      in Mat4 (Vec4 (vx s) (vx u) (- vx f) 0)
              (Vec4 (vy s) (vy u) (- vy f) 0)
              (Vec4 (vz s) (vz u) (- vz f) 0)
              (Vec4 (- dot3 s eye) (- dot3 u eye) (dot3 f eye) 1))"

text \<open>\<open>glm::scale( v )\<close>: the scaling matrix with diagonal \<open>v\<close>.\<close>

definition scale :: "vec3 \<Rightarrow> mat4" where
  "scale v = Mat4 (Vec4 (vx v) 0 0 0) (Vec4 0 (vy v) 0 0) (Vec4 0 0 (vz v) 0) (Vec4 0 0 0 1)"

text \<open>\<open>glm::normalize\<close> on a quaternion: the identity when the length is not positive.\<close>

definition quat_normalize :: "quat \<Rightarrow> quat" where
  "quat_normalize q =
     (let len = sqrt (qw q * qw q + qx q * qx q + qy q * qy q + qz q * qz q)
      in if len \<le> 0 then Quat 1 0 0 0
         else Quat (qw q * (1 / len)) (qx q * (1 / len)) (qy q * (1 / len)) (qz q * (1 / len)))"


section \<open>The vendor SDK's data\<close>

text \<open>
  The structures of the Oculus SDK that the session reads and writes, with the fields
  it uses. An array indexed by \<open>ovrEyeType\<close> (\<open>ovrEye_Count = 2\<close>) is a pair.
\<close>

datatype ovrEyeType = ovrEye_Left | ovrEye_Right

type_synonym 'a per_eye = "'a \<times> 'a"

fun at_eye :: "'a per_eye \<Rightarrow> ovrEyeType \<Rightarrow> 'a" where
  "at_eye (l, r) ovrEye_Left = l"
| "at_eye (l, r) ovrEye_Right = r"

text \<open>
  An \<open>int\<close> used as an index into such an array: 0 and 1 are in range; every other
  value reads outside the array.
\<close>

definition eye_of_index :: "int \<Rightarrow> ovrEyeType option" where
  "eye_of_index i =
     (if i = 0 then Some ovrEye_Left else if i = 1 then Some ovrEye_Right else None)"

definition index_of_eye :: "ovrEyeType \<Rightarrow> int" where
  "index_of_eye e = (case e of ovrEye_Left \<Rightarrow> 0 | ovrEye_Right \<Rightarrow> 1)"

type_synonym ovrResult = int

record ovrFovPort =
  UpTan :: real
  DownTan :: real
  LeftTan :: real
  RightTan :: real

record ovrSizei =
  size_w :: int
  size_h :: int

record ovrRecti =
  Pos :: ivec2
  Size :: ovrSizei

record ovrPosef =
  Orientation :: quat
  Position :: vec3

record ovrEyeRenderDesc =
  Fov :: ovrFovPort
  HmdToEyeViewOffset :: vec3

record ovrSwapTextureSet =
  TextureCount :: int
  CurrentIndex :: int

record ovrHmdDesc =
  EyeRenderOrder :: "ovrEyeType per_eye"
  DefaultEyeFov :: "ovrFovPort per_eye"
  Resolution :: ovrSizei

record ovrTrackingState =
  StatusFlags :: "32 word"
  HeadPose :: ovrPosef

text \<open>
  A layer refers to its colour textures by pointer. The only texture set there is
  belongs to the session's render buffer, so such a pointer is null or points there.
\<close>

datatype texture_set_ptr = null_TextureSet | mRenderBuffer_TextureSet

record ovrLayerEyeFov =
  Header_Type :: "32 word"
  Header_Flags :: "32 word"
  ColorTexture :: "texture_set_ptr per_eye"
  Viewport :: "ovrRecti per_eye"
  layer_Fov :: "ovrFovPort per_eye"
  RenderPose :: "ovrPosef per_eye"

record ovrViewScaleDesc =
  view_HmdToEyeViewOffset :: "vec3 per_eye"
  HmdSpaceToWorldScaleInMeters :: real

text \<open>
  The SDK is closed: its constants and the functions the session calls for a value are
  parameters of the model. \<open>ovrMatrix4f_Projection\<close> is always called with
  \<open>ovrProjection_RightHanded\<close>, which is left out of its arguments here.
\<close>

record ovr_sdk =
  ovrStatus_PositionConnected :: "32 word"
  ovrStatus_PositionTracked :: "32 word"
  ovrLayerType_EyeFov :: "32 word"
  ovrLayerFlag_HighQuality :: "32 word"
  ovrHmd_GetFovTextureSize :: "ovrHmdDesc \<Rightarrow> ovrEyeType \<Rightarrow> ovrFovPort \<Rightarrow> real \<Rightarrow> ovrSizei"
  ovrHmd_GetRenderDesc :: "ovrHmdDesc \<Rightarrow> ovrEyeType \<Rightarrow> ovrFovPort \<Rightarrow> ovrEyeRenderDesc"
  ovrMatrix4f_Projection :: "ovrFovPort \<Rightarrow> real \<Rightarrow> real \<Rightarrow> mat4"
  ovr_CalcEyePoses :: "ovrPosef \<Rightarrow> vec3 per_eye \<Rightarrow> ovrPosef per_eye"
  ovrHmd_CreateSwapTextureSetGL :: "ovrHmdDesc \<Rightarrow> ivec2 \<Rightarrow> ovrSwapTextureSet"

text \<open>
  The calls that change the device, in the order the session made them. Calls that only
  read the device (texture sizes, render descriptors, timing, tracking state) come in
  through \<open>ovr_sdk\<close> and the tracking-state arguments instead.
\<close>

datatype ovr_call =
    SetEnabledCaps "32 word"
  | ConfigureTracking "32 word" "32 word"
  | CreateSwapTextureSet ivec2
  | SubmitFrame ovrViewScaleDesc ovrLayerEyeFov "ovrSwapTextureSet option"
  | DestroyMirrorTexture
  | DestroySwapTextureSet
  | Destroy

section \<open>The host framework's data\<close>

text \<open>
  Cinder's \<open>CameraPersp\<close>, by the values its getters return. \<open>setOrientation\<close>
  stores the normalised quaternion. The session's eye camera adds the projection that
  the SDK computed.
\<close>

record CameraPersp =
  cam_Orientation :: quat
  cam_EyePoint :: vec3
  cam_NearClip :: real
  cam_FarClip :: real

record EyeCamera = CameraPersp +
  mOvrProjection :: mat4

definition setOrientation :: "quat \<Rightarrow> 'a CameraPersp_scheme \<Rightarrow> 'a CameraPersp_scheme" where
  "setOrientation q c = c\<lparr>cam_Orientation := quat_normalize q\<rparr>"

definition setEyePoint :: "vec3 \<Rightarrow> 'a CameraPersp_scheme \<Rightarrow> 'a CameraPersp_scheme" where
  "setEyePoint p c = c\<lparr>cam_EyePoint := p\<rparr>"

text \<open>
  A window is shared (\<open>WindowRef\<close> is a shared pointer): windows live in a store
  indexed by their identity, and a \<open>WindowRef\<close> is an identity or null. A window
  has a renderer; only \<open>RendererGl\<close> has the two draw hooks, each empty or bound to
  the session's member function. The close signal holds the handlers connected to it.
\<close>

type_synonym wid = nat

type_synonym WindowRef = "wid option"

datatype draw_hook = bound_startDrawFn | bound_finishDrawFn

datatype close_slot = calls_detachFromWindow

datatype Renderer =
    RendererGl (startDraw: "draw_hook option") (finishDraw: "draw_hook option")
  | OtherRenderer

record Window =
  win_isValid :: bool
  win_renderer :: Renderer
  win_signalClose :: "close_slot list"

text \<open>The part of Cinder's OpenGL state that the session sets.\<close>

record gl_state =
  gl_viewport :: "ivec2 \<times> ivec2"
  gl_modelMatrix :: mat4
  gl_viewMatrix :: mat4
  gl_projectionMatrix :: mat4
  gl_renderSurface :: "int option"

section \<open>The session\<close>

datatype error =
    RuntimeError string
  | AssertionFailed
  | NullPointer
  | OutOfBounds
  | DivideByZero

record TextureBuffer =
  tex_size :: ivec2
  TextureSet :: ovrSwapTextureSet

record DepthBuffer =
  depth_size :: ivec2

text \<open>The members of \<open>OculusRift\<close>; \<open>mHmd\<close> is null or points to the device's description.\<close>

record OculusRift =
  mWindow :: WindowRef
  mHeadScale :: real
  mScreenPercentage :: real
  mMirrorPercentage :: real
  mHmdCaps :: "32 word"
  mTrackingCaps :: "32 word"
  mHmdSettingsChanged :: bool
  mIsExtended :: bool
  mIsMirrrored :: bool
  mIsMonoscopic :: bool
  mUsePositionalTracking :: bool
  mHmd :: "ovrHmdDesc option"
  mHostCamera :: CameraPersp
  mHmdEyeCamera :: EyeCamera
  mEye :: ovrEyeType
  mEyeRenderDesc :: "ovrEyeRenderDesc per_eye"
  mEyeViewOffset :: "vec3 per_eye"
  mEyeRenderPose :: "ovrPosef per_eye"
  mLayer :: ovrLayerEyeFov
  mRenderBuffer :: "TextureBuffer option"
  mDepthBuffer :: "DepthBuffer option"
  mMirrorTexture :: "ivec2 option"
  mViewMatrix :: mat4
  mInverseViewMatrix :: mat4
  mProjectionMatrix :: mat4
  mViewMatrixCached :: bool
  mInverseViewMatrixCached :: bool
  mProjectionCached :: bool

text \<open>
  The session with what it acts on: the windows, the device (as the calls made on it)
  and the OpenGL state.
\<close>

record world =
  rift :: OculusRift
  windows :: "wid \<Rightarrow> Window"
  ovr_calls :: "ovr_call list"
  gl :: gl_state


section \<open>The session's operations\<close>

text \<open>
  Each member function takes the world and returns the new one. A function that can
  fail returns \<open>error + world\<close>: \<open>Inl\<close> for a failed assertion, a thrown
  exception, or an access the language leaves undefined (a null device handle
  dereferenced, an index outside an array, a remainder by zero).
\<close>

definition isValid :: "(wid \<Rightarrow> Window) \<Rightarrow> WindowRef \<Rightarrow> bool" where
  "isValid ws window = (case window of None \<Rightarrow> False | Some i \<Rightarrow> win_isValid (ws i))"

text \<open>
  Modelled from the spec: \<open>isMonoscopic\<close>, \<open>isPositionalTrackingEnabled\<close> and
  \<open>getEyeViewport\<close> are defined in CinderOculus.h, which is not among the sources.
  They read the monoscopic toggle, the positional-tracking toggle, and the active eye's
  viewport rectangle within the shared render target.
\<close>

definition isMonoscopic :: "world \<Rightarrow> bool" where
  "isMonoscopic W = mIsMonoscopic (rift W)"

definition isPositionalTrackingEnabled :: "world \<Rightarrow> bool" where
  "isPositionalTrackingEnabled W = mUsePositionalTracking (rift W)"

definition getEyeViewport :: "world \<Rightarrow> ivec2 \<times> ivec2" where
  "getEyeViewport W =
     (let vp = at_eye (Viewport (mLayer (rift W))) (mEye (rift W))
      in (Pos vp, IVec2 (size_w (Size vp)) (size_h (Size vp))))"

definition detachFromWindow :: "world \<Rightarrow> world" where
  "detachFromWindow W =
     (case mWindow (rift W) of
        None \<Rightarrow> W
      | Some i \<Rightarrow>
          if win_isValid (windows W i) then
            W\<lparr>windows := (windows W)(i := (windows W i)
                  \<lparr>win_renderer :=
                     (case win_renderer (windows W i) of
                        RendererGl s f \<Rightarrow> RendererGl None None
                      | OtherRenderer \<Rightarrow> OtherRenderer)\<rparr>),
               rift := (rift W)\<lparr>mWindow := None\<rparr>\<rparr>
          else W)"

definition updateHmdSettings :: "world \<Rightarrow> world" where
  "updateHmdSettings W =
     W\<lparr>ovr_calls := ovr_calls W @ [SetEnabledCaps (mHmdCaps (rift W))],
        rift := (rift W)\<lparr>mHmdSettingsChanged := False\<rparr>\<rparr>"

text \<open>
  The size of the render target for the current screen percentage: both eyes side by
  side.
\<close>

definition frameBufferSize :: "ovr_sdk \<Rightarrow> ovrHmdDesc \<Rightarrow> real \<Rightarrow> ivec2" where
  "frameBufferSize sdk hmd sp =
     (let left = ovrHmd_GetFovTextureSize sdk hmd ovrEye_Left
                   (at_eye (DefaultEyeFov hmd) ovrEye_Left) sp;
          right = ovrHmd_GetFovTextureSize sdk hmd ovrEye_Right
                   (at_eye (DefaultEyeFov hmd) ovrEye_Right) sp
      in IVec2 (size_w left + size_w right) (max (size_h left) (size_h right)))"

text \<open>
  Modelled from the spec: the constructors of \<open>TextureBuffer\<close> and \<open>DepthBuffer\<close>
  are defined in CinderOculus.h, which is not among the sources. The render target is a
  ring of colour surfaces of the requested size, created by the device, with a depth
  surface of the same size.
\<close>

definition new_TextureBuffer :: "ovr_sdk \<Rightarrow> ovrHmdDesc \<Rightarrow> ivec2 \<Rightarrow> TextureBuffer" where
  "new_TextureBuffer sdk hmd sz =
     \<lparr>tex_size = sz, TextureSet = ovrHmd_CreateSwapTextureSetGL sdk hmd sz\<rparr>"

definition new_DepthBuffer :: "ivec2 \<Rightarrow> DepthBuffer" where
  "new_DepthBuffer sz = \<lparr>depth_size = sz\<rparr>"

definition needsNewBuffer :: "TextureBuffer option \<Rightarrow> ivec2 \<Rightarrow> bool" where
  "needsNewBuffer rb sz = (case rb of None \<Rightarrow> True | Some b \<Rightarrow> tex_size b \<noteq> sz)"

definition initializeFrameBuffer :: "ovr_sdk \<Rightarrow> world \<Rightarrow> error + world" where
  "initializeFrameBuffer sdk W =
     (case mHmd (rift W) of
        None \<Rightarrow> Inl NullPointer
      | Some hmd \<Rightarrow>
          let sz = frameBufferSize sdk hmd (mScreenPercentage (rift W))
          in if needsNewBuffer (mRenderBuffer (rift W)) sz then
               let desc = (ovrHmd_GetRenderDesc sdk hmd ovrEye_Left
                             (at_eye (DefaultEyeFov hmd) ovrEye_Left),
                           ovrHmd_GetRenderDesc sdk hmd ovrEye_Right
                             (at_eye (DefaultEyeFov hmd) ovrEye_Right));
                   half = ix sz sdiv 2;
                   layer = (mLayer (rift W))
                     \<lparr>Header_Type := ovrLayerType_EyeFov sdk,
                      Header_Flags := ovrLayerFlag_HighQuality sdk,
                      ColorTexture := (mRenderBuffer_TextureSet, mRenderBuffer_TextureSet),
                      layer_Fov := (Fov (fst desc), Fov (snd desc)),
                      Viewport :=
                        (\<lparr>Pos = IVec2 0 0, Size = \<lparr>size_w = half, size_h = iy sz\<rparr>\<rparr>,
                         \<lparr>Pos = IVec2 half 0, Size = \<lparr>size_w = half, size_h = iy sz\<rparr>\<rparr>)\<rparr>
               in Inr (W\<lparr>ovr_calls := ovr_calls W @ [CreateSwapTextureSet sz],
                         rift := (rift W)
                           \<lparr>mRenderBuffer := Some (new_TextureBuffer sdk hmd sz),
                            mDepthBuffer := Some (new_DepthBuffer sz),
                            mEyeRenderDesc := desc,
                            mLayer := layer\<rparr>\<rparr>)
             else Inr W)"

text \<open>
  \<open>initialize\<close> returns a boolean or throws. Its result is the outcome together with
  the world as it is when the function is left, since the frame buffer and the device
  settings are touched before the renderer is inspected. What
  \<open>ovrHmd_ConfigureTracking\<close> returns is only logged.
\<close>

definition initialize :: "ovr_sdk \<Rightarrow> WindowRef \<Rightarrow> world \<Rightarrow> (error + bool) \<times> world" where
  "initialize sdk window W =
     (case window of
        None \<Rightarrow> (Inr False, W)
      | Some i \<Rightarrow>
          if mHmd (rift W) = None \<or> \<not> win_isValid (windows W i) then (Inr False, W)
          else
            (case initializeFrameBuffer sdk W of
               Inl e \<Rightarrow> (Inl e, W)
             | Inr W1 \<Rightarrow>
                 let W2 = updateHmdSettings W1 in
                 (case win_renderer (windows W2 i) of
                    RendererGl s f \<Rightarrow>
                      (Inr True,
                       W2\<lparr>windows := (windows W2)(i := (windows W2 i)
                             \<lparr>win_renderer :=
                                RendererGl (Some bound_startDrawFn) (Some bound_finishDrawFn),
                              win_signalClose :=
                                win_signalClose (windows W2 i) @ [calls_detachFromWindow]\<rparr>),
                          ovr_calls := ovr_calls W2 @ [ConfigureTracking (mTrackingCaps (rift W2)) 0],
                          rift := (rift W2)\<lparr>mWindow := Some i\<rparr>\<rparr>)
                  | OtherRenderer \<Rightarrow>
                      (Inl (RuntimeError
                         ''CinderOculus can only be used in combination with RendererGl.''),
                       W2))))"

definition bind :: "world \<Rightarrow> error + world" where
  "bind W =
     (case mRenderBuffer (rift W) of
        None \<Rightarrow> Inr W
      | Some rb \<Rightarrow>
          let set = TextureSet rb in
          if TextureCount set = 0 then Inl DivideByZero
          else
            let set' = set\<lparr>CurrentIndex := (CurrentIndex set + 1) smod TextureCount set\<rparr>
            in Inr (W\<lparr>rift := (rift W)\<lparr>mRenderBuffer := Some (rb\<lparr>TextureSet := set'\<rparr>)\<rparr>,
                      gl := (gl W)\<lparr>gl_renderSurface := Some (CurrentIndex set')\<rparr>\<rparr>))"

definition unbind :: "world \<Rightarrow> world" where
  "unbind W =
     (case mRenderBuffer (rift W) of
        None \<Rightarrow> W
      | Some rb \<Rightarrow> W\<lparr>gl := (gl W)\<lparr>gl_renderSurface := None\<rparr>\<rparr>)"

text \<open>\<open>isTracked\<close> polls the device: the tracking state it receives is an argument.\<close>

definition isTracked :: "ovr_sdk \<Rightarrow> ovrTrackingState \<Rightarrow> world \<Rightarrow> bool" where
  "isTracked sdk ts W =
     (let tracked = (StatusFlags ts AND ovrStatus_PositionConnected sdk \<noteq> 0)
                  \<and> (StatusFlags ts AND ovrStatus_PositionTracked sdk \<noteq> 0)
      in tracked \<and> isPositionalTrackingEnabled W)"

text \<open>
  The getters are \<open>const\<close> but fill the \<open>mutable\<close> caches, so they return the
  matrix and the world.
\<close>

definition getViewMatrix :: "ovr_sdk \<Rightarrow> ovrTrackingState \<Rightarrow> world \<Rightarrow> mat4 \<times> world" where
  "getViewMatrix sdk ts W =
     (if \<not> mViewMatrixCached (rift W) then
        let hostOrientation = toMat4 (cam_Orientation (mHostCamera (rift W)));
            orientation = mat4_mul hostOrientation
                            (toMat4 (cam_Orientation (mHmdEyeCamera (rift W))));
            up = vec3_of (mat4_mul_vec4 orientation (Vec4 0 1 0 0));
            forward = vec3_of (mat4_mul_vec4 orientation (Vec4 0 0 (- 1) 0));
            eye0 = cam_EyePoint (mHostCamera (rift W));
            eye = (if isTracked sdk ts W then
                     vec3_add eye0 (vec3_of (mat4_mul_vec4 hostOrientation
                        (vec4_of (cam_EyePoint (mHmdEyeCamera (rift W))) 1)))
                   else eye0);
            m = mat4_mul (lookAt eye (vec3_add eye forward) up)
                  (scale (Vec3 (1 / mHeadScale (rift W)) (1 / mHeadScale (rift W))
                            (1 / mHeadScale (rift W))))
        in (m, W\<lparr>rift := (rift W)\<lparr>mViewMatrix := m, mViewMatrixCached := True\<rparr>\<rparr>)
      else (mViewMatrix (rift W), W))"

text \<open>\<open>glm::inverse\<close> is a parameter.\<close>

definition getInverseViewMatrix ::
    "(mat4 \<Rightarrow> mat4) \<Rightarrow> ovr_sdk \<Rightarrow> ovrTrackingState \<Rightarrow> world \<Rightarrow> mat4 \<times> world" where
  "getInverseViewMatrix glm_inverse sdk ts W =
     (if \<not> mInverseViewMatrixCached (rift W) then
        let (v, W1) = getViewMatrix sdk ts W;
            m = glm_inverse v
        in (m, W1\<lparr>rift := (rift W1)\<lparr>mInverseViewMatrix := m,
                                     mInverseViewMatrixCached := True\<rparr>\<rparr>)
      else (mInverseViewMatrix (rift W), W))"

text \<open>
  Modelled from the spec: the eye camera's \<open>getProjectionMatrix\<close> is defined in
  CinderOculus.h, which is not among the sources. It is the projection derived from the
  eye's field of view by the device, that is, the \<open>mOvrProjection\<close> that
  \<open>enableEye\<close> stored.
\<close>

definition EyeCamera_getProjectionMatrix :: "EyeCamera \<Rightarrow> mat4" where
  "EyeCamera_getProjectionMatrix c = mOvrProjection c"

definition getProjectionMatrix :: "world \<Rightarrow> mat4 \<times> world" where
  "getProjectionMatrix W =
     (if \<not> mProjectionCached (rift W) then
        let m = EyeCamera_getProjectionMatrix (mHmdEyeCamera (rift W))
        in (m, W\<lparr>rift := (rift W)\<lparr>mProjectionMatrix := m, mProjectionCached := True\<rparr>\<rparr>)
      else (mProjectionMatrix (rift W), W))"


text \<open>
  \<open>fromOvr\<close> (CinderOculus.h) converts the SDK's vectors, quaternions and row-major
  matrices to glm's. The model has one type for each, so it does not appear.
\<close>

definition enableEye ::
    "ovr_sdk \<Rightarrow> ovrTrackingState \<Rightarrow> int \<Rightarrow> bool \<Rightarrow> world \<Rightarrow> error + world" where
  "enableEye sdk ts eyeIndex applyMatrices W =
     (case mHmd (rift W) of
        None \<Rightarrow> Inl NullPointer
      | Some hmd \<Rightarrow>
          (case eye_of_index eyeIndex of
             None \<Rightarrow> Inl OutOfBounds
           | Some k \<Rightarrow>
               let e = at_eye (EyeRenderOrder hmd) k;
                   pose = at_eye (mEyeRenderPose (rift W)) e;
                   cam = setEyePoint (Position pose)
                           (setOrientation (Orientation pose) (mHmdEyeCamera (rift W)));
                   cam' = cam\<lparr>mOvrProjection :=
                            ovrMatrix4f_Projection sdk (Fov (at_eye (mEyeRenderDesc (rift W)) e))
                              (cam_NearClip cam) (cam_FarClip cam)\<rparr>;
                   W1 = W\<lparr>rift := (rift W)
                          \<lparr>mProjectionCached := False,
                           mViewMatrixCached := False,
                           mInverseViewMatrixCached := False,
                           mEye := e,
                           mHmdEyeCamera := cam'\<rparr>\<rparr>
               in if applyMatrices then
                    let vp = getEyeViewport W1;
                        (v, W2) = getViewMatrix sdk ts W1;
                        (p, W3) = getProjectionMatrix W2
                    in Inr (W3\<lparr>gl := (gl W3)
                              \<lparr>gl_viewport := vp,
                               gl_modelMatrix := mat4_identity,
                               gl_viewMatrix := v,
                               gl_projectionMatrix := p\<rparr>\<rparr>)
                  else Inr W1))"

definition getEyes :: "world \<Rightarrow> ovrEyeType list" where
  "getEyes W =
     (case mHmd (rift W) of
        None \<Rightarrow> []
      | Some hmd \<Rightarrow>
          if isValid (windows W) (mWindow (rift W))
          then [fst (EyeRenderOrder hmd), snd (EyeRenderOrder hmd)]
          else [])"

text \<open>\<open>CI_ASSERT\<close> is modelled as it behaves where assertions are enabled.\<close>

definition setScreenPercentage :: "real \<Rightarrow> world \<Rightarrow> error + world" where
  "setScreenPercentage sp W =
     (if sp > 0 then Inr (W\<lparr>rift := (rift W)\<lparr>mScreenPercentage := sp\<rparr>\<rparr>)
      else Inl AssertionFailed)"

definition setMirrorPercentage :: "real \<Rightarrow> world \<Rightarrow> error + world" where
  "setMirrorPercentage sp W =
     (if sp > 0 then Inr (W\<lparr>rift := (rift W)\<lparr>mMirrorPercentage := sp\<rparr>\<rparr>)
      else Inl AssertionFailed)"

definition enableMirrored :: "bool \<Rightarrow> world \<Rightarrow> world" where
  "enableMirrored enabled W =
     (if mIsMirrrored (rift W) \<noteq> enabled
      then W\<lparr>rift := (rift W)\<lparr>mIsMirrrored := enabled, mHmdSettingsChanged := True\<rparr>\<rparr>
      else W)"

definition setHeadScale :: "real \<Rightarrow> world \<Rightarrow> world" where
  "setHeadScale s W = W\<lparr>rift := (rift W)\<lparr>mHeadScale := s\<rparr>\<rparr>"

text \<open>
  Modelled from the spec: \<open>enableMonoscopic\<close> and \<open>enablePositionalTracking\<close> are
  defined in CinderOculus.h, which is not among the sources. Each setter stores its
  value and records the settings-changed flag.
\<close>

definition enableMonoscopic :: "bool \<Rightarrow> world \<Rightarrow> world" where
  "enableMonoscopic enabled W =
     W\<lparr>rift := (rift W)\<lparr>mIsMonoscopic := enabled, mHmdSettingsChanged := True\<rparr>\<rparr>"

definition enablePositionalTracking :: "bool \<Rightarrow> world \<Rightarrow> world" where
  "enablePositionalTracking enabled W =
     W\<lparr>rift := (rift W)\<lparr>mUsePositionalTracking := enabled, mHmdSettingsChanged := True\<rparr>\<rparr>"

text \<open>
  The pre-render hook. The head pose predicted by the device for the frame's display
  midpoint is an argument; \<open>makeCurrentContext\<close> has no effect on the model's state.
\<close>

definition zero_x :: "vec3 \<Rightarrow> vec3" where
  "zero_x v = Vec3 0 (vy v) (vz v)"

definition startDrawFn :: "ovr_sdk \<Rightarrow> ovrTrackingState \<Rightarrow> world \<Rightarrow> error + world" where
  "startDrawFn sdk hmdState W =
     (case initializeFrameBuffer sdk W of
        Inl e \<Rightarrow> Inl e
      | Inr W1 \<Rightarrow>
          let W2 = (if mHmdSettingsChanged (rift W1) then updateHmdSettings W1 else W1);
              off = (if isMonoscopic W2
                     then (zero_x (fst (mEyeViewOffset (rift W2))),
                           zero_x (snd (mEyeViewOffset (rift W2))))
                     else (HmdToEyeViewOffset (fst (mEyeRenderDesc (rift W2))),
                           HmdToEyeViewOffset (snd (mEyeRenderDesc (rift W2)))));
              poses = ovr_CalcEyePoses sdk (HeadPose hmdState) off
          in Inr (W2\<lparr>rift := (rift W2)
                    \<lparr>mEyeViewOffset := off,
                     mEyeRenderPose := poses,
                     mLayer := (mLayer (rift W2))\<lparr>RenderPose := poses\<rparr>\<rparr>\<rparr>))"

text \<open>
  The post-render hook. \<open>result\<close> is what \<open>ovrHmd_SubmitFrame\<close> returned; the
  function stores it in a local variable and never reads it.
\<close>

definition finishDrawFn :: "ovrResult \<Rightarrow> world \<Rightarrow> world" where
  "finishDrawFn result W =
     (let viewScaleDesc = \<lparr>view_HmdToEyeViewOffset = mEyeViewOffset (rift W),
                            HmdSpaceToWorldScaleInMeters = 1\<rparr>
      in W\<lparr>ovr_calls := ovr_calls W @
             [SubmitFrame viewScaleDesc (mLayer (rift W))
                (map_option TextureSet (mRenderBuffer (rift W)))]\<rparr>)"

text \<open>The body of the destructor \<open>~OculusRift\<close>.\<close>

definition destroy_OculusRift :: "world \<Rightarrow> error + world" where
  "destroy_OculusRift W =
     (let W1 = detachFromWindow W in
      case mRenderBuffer (rift W1) of
        None \<Rightarrow> Inl NullPointer
      | Some rb \<Rightarrow>
          Inr (W1\<lparr>ovr_calls := ovr_calls W1 @ [DestroyMirrorTexture, DestroySwapTextureSet]
                     @ (if mHmd (rift W1) \<noteq> None then [Destroy] else []),
                  rift := (rift W1)\<lparr>mHmd := None\<rparr>\<rparr>))"

subsection \<open>Sequences of calls\<close>

text \<open>
  What an application can call on the session between \<open>startDrawFn\<close> of one frame
  and \<open>startDrawFn\<close> of the next, other than \<open>setScreenPercentage\<close>.
\<close>

datatype frame_call =
    Bind
  | Unbind
  | EnableEye ovrTrackingState int bool
  | GetViewMatrix ovrTrackingState
  | GetInverseViewMatrix ovrTrackingState
  | GetProjectionMatrix
  | SetMirrorPercentage real
  | EnableMirrored bool
  | SetHeadScale real
  | FinishDraw ovrResult

fun call :: "(mat4 \<Rightarrow> mat4) \<Rightarrow> ovr_sdk \<Rightarrow> frame_call \<Rightarrow> world \<Rightarrow> error + world" where
  "call glm_inverse sdk Bind W = bind W"
| "call glm_inverse sdk Unbind W = Inr (unbind W)"
| "call glm_inverse sdk (EnableEye ts i ap) W = enableEye sdk ts i ap W"
| "call glm_inverse sdk (GetViewMatrix ts) W = Inr (snd (getViewMatrix sdk ts W))"
| "call glm_inverse sdk (GetInverseViewMatrix ts) W = Inr (snd (getInverseViewMatrix glm_inverse sdk ts W))"
| "call glm_inverse sdk GetProjectionMatrix W = Inr (snd (getProjectionMatrix W))"
| "call glm_inverse sdk (SetMirrorPercentage sp) W = setMirrorPercentage sp W"
| "call glm_inverse sdk (EnableMirrored b) W = Inr (enableMirrored b W)"
| "call glm_inverse sdk (SetHeadScale s) W = Inr (setHeadScale s W)"
| "call glm_inverse sdk (FinishDraw r) W = Inr (finishDrawFn r W)"

fun calls :: "(mat4 \<Rightarrow> mat4) \<Rightarrow> ovr_sdk \<Rightarrow> frame_call list \<Rightarrow> world \<Rightarrow> error + world" where
  "calls glm_inverse sdk [] W = Inr W"
| "calls glm_inverse sdk (c # cs) W =
     (case call glm_inverse sdk c W of Inl e \<Rightarrow> Inl e | Inr W1 \<Rightarrow> calls glm_inverse sdk cs W1)"

text \<open>
  The iteration the README prescribes for \<open>draw()\<close>:
  \<^verbatim>\<open>for( auto eye : mRift.getEyes() ) { mRift.enableEye( eye ); drawScene(); }\<close>
  with the eyes that were enabled, in order, as its trace.
\<close>

fun enableEach ::
    "ovr_sdk \<Rightarrow> ovrTrackingState \<Rightarrow> ovrEyeType list \<Rightarrow> world \<Rightarrow> error + (ovrEyeType list \<times> world)" where
  "enableEach sdk ts [] W = Inr ([], W)"
| "enableEach sdk ts (e # es) W =
     (case enableEye sdk ts (index_of_eye e) True W of
        Inl x \<Rightarrow> Inl x
      | Inr W1 \<Rightarrow>
          (case enableEach sdk ts es W1 of
             Inl x \<Rightarrow> Inl x
           | Inr (drawn, W2) \<Rightarrow> Inr (mEye (rift W1) # drawn, W2)))"

definition drawEyes ::
    "ovr_sdk \<Rightarrow> ovrTrackingState \<Rightarrow> world \<Rightarrow> error + (ovrEyeType list \<times> world)" where
  "drawEyes sdk ts W = enableEach sdk ts (getEyes W) W"


section \<open>The view matrix as the specification words it\<close>

text \<open>
  The specification's derivation of the view matrix, from the five cached values and
  whether the tracked position counts: \<open>forward\<close> and \<open>up\<close> are the canonical
  \<open>-Z\<close> and \<open>+Y\<close> axes rotated through \<open>hostOrientation * eyeOrientation\<close>; the eye
  is the host eye point, plus the tracked eye position rotated into host space when it
  counts; the result is \<open>lookAt(eye, eye + forward, up) * scale(1 / headScale)\<close>.
\<close>

definition rotate_by :: "mat4 \<Rightarrow> vec3 \<Rightarrow> vec3" where
  "rotate_by m v = vec3_of (mat4_mul_vec4 m (vec4_of v 0))"

definition spec_viewMatrix :: "quat \<Rightarrow> vec3 \<Rightarrow> quat \<Rightarrow> vec3 \<Rightarrow> real \<Rightarrow> bool \<Rightarrow> mat4" where
  "spec_viewMatrix hostOrientation hostEyePoint eyeOrientation eyePosition headScale tracked =
     (let r = mat4_mul (toMat4 hostOrientation) (toMat4 eyeOrientation);
          forward = rotate_by r (Vec3 0 0 (- 1));
          up = rotate_by r (Vec3 0 1 0);
          eye = (if tracked
                 then vec3_add hostEyePoint (rotate_by (toMat4 hostOrientation) eyePosition)
                 else hostEyePoint)
      in mat4_mul (lookAt eye (vec3_add eye forward) up)
           (scale (Vec3 (1 / headScale) (1 / headScale) (1 / headScale))))"

text \<open>The specification's view matrix for the values cached in a world.\<close>

definition spec_viewMatrix_of :: "ovr_sdk \<Rightarrow> ovrTrackingState \<Rightarrow> world \<Rightarrow> mat4" where
  "spec_viewMatrix_of sdk ts W =
     spec_viewMatrix
       (cam_Orientation (mHostCamera (rift W))) (cam_EyePoint (mHostCamera (rift W)))
       (cam_Orientation (mHmdEyeCamera (rift W))) (cam_EyePoint (mHmdEyeCamera (rift W)))
       (mHeadScale (rift W))
       (mUsePositionalTracking (rift W)
        \<and> StatusFlags ts AND ovrStatus_PositionConnected sdk \<noteq> 0
        \<and> StatusFlags ts AND ovrStatus_PositionTracked sdk \<noteq> 0)"

section \<open>A test double of the device, and sample worlds\<close>

text \<open>
  A stand-in for the SDK, used to run the model on concrete inputs: texture sizes grow
  with the screen percentage, the render descriptor reports an eye offset with all three
  components non-zero, the projection keeps the four tangents and the clip planes, and
  eye poses are the head pose displaced by the offsets.
\<close>

definition example_fov_left :: ovrFovPort where
  "example_fov_left = \<lparr>UpTan = 1, DownTan = 1, LeftTan = 1, RightTan = 3 / 4\<rparr>"

definition example_fov_right :: ovrFovPort where
  "example_fov_right = \<lparr>UpTan = 1, DownTan = 1, LeftTan = 3 / 4, RightTan = 1\<rparr>"

definition example_hmd :: ovrHmdDesc where
  "example_hmd = \<lparr>EyeRenderOrder = (ovrEye_Left, ovrEye_Right),
                   DefaultEyeFov = (example_fov_left, example_fov_right),
                   Resolution = \<lparr>size_w = 1920, size_h = 1080\<rparr>\<rparr>"

definition example_offset :: "ovrEyeType \<Rightarrow> vec3" where
  "example_offset e =
     (case e of ovrEye_Left \<Rightarrow> Vec3 (- (4 / 125)) (1 / 100) (1 / 50)
              | ovrEye_Right \<Rightarrow> Vec3 (4 / 125) (1 / 100) (1 / 50))"

definition example_projection :: "ovrFovPort \<Rightarrow> real \<Rightarrow> real \<Rightarrow> mat4" where
  "example_projection fov n f =
     Mat4 (Vec4 (UpTan fov) 0 0 0) (Vec4 0 (DownTan fov) 0 0)
          (Vec4 (LeftTan fov) (RightTan fov) 0 (- 1)) (Vec4 0 0 n f)"

definition example_sdk :: ovr_sdk where
  "example_sdk =
     \<lparr>ovrStatus_PositionConnected = 32,
      ovrStatus_PositionTracked = 2,
      ovrLayerType_EyeFov = 1,
      ovrLayerFlag_HighQuality = 1,
      ovrHmd_GetFovTextureSize =
        (\<lambda>hmd e fov sp. \<lparr>size_w = \<lfloor>1000 * sp\<rfloor>, size_h = \<lfloor>1200 * sp\<rfloor>\<rparr>),
      ovrHmd_GetRenderDesc =
        (\<lambda>hmd e fov. \<lparr>Fov = fov, HmdToEyeViewOffset = example_offset e\<rparr>),
      ovrMatrix4f_Projection = example_projection,
      ovr_CalcEyePoses =
        (\<lambda>head off.
           (\<lparr>Orientation = Orientation head, Position = vec3_add (Position head) (fst off)\<rparr>,
            \<lparr>Orientation = Orientation head, Position = vec3_add (Position head) (snd off)\<rparr>)),
      ovrHmd_CreateSwapTextureSetGL = (\<lambda>hmd sz. \<lparr>TextureCount = 2, CurrentIndex = 0\<rparr>)\<rparr>"

text \<open>Tracking states: position connected and tracked, and neither.\<close>

definition example_pose :: ovrPosef where
  "example_pose = \<lparr>Orientation = quat_identity, Position = Vec3 0 0 0\<rparr>"

definition example_tracked :: ovrTrackingState where
  "example_tracked = \<lparr>StatusFlags = 34, HeadPose = example_pose\<rparr>"

definition example_untracked :: ovrTrackingState where
  "example_untracked = \<lparr>StatusFlags = 0, HeadPose = example_pose\<rparr>"

text \<open>
  Window 0 is valid with a \<open>RendererGl\<close>, window 1 is valid with another renderer,
  every other window is not valid.
\<close>

definition example_windows :: "wid \<Rightarrow> Window" where
  "example_windows i =
     (if i = 0 then \<lparr>win_isValid = True, win_renderer = RendererGl None None,
                      win_signalClose = []\<rparr>
      else if i = 1 then \<lparr>win_isValid = True, win_renderer = OtherRenderer, win_signalClose = []\<rparr>
      else \<lparr>win_isValid = False, win_renderer = OtherRenderer, win_signalClose = []\<rparr>)"

definition example_camera :: CameraPersp where
  "example_camera = \<lparr>cam_Orientation = quat_identity, cam_EyePoint = Vec3 0 0 1,
                      cam_NearClip = 1 / 10, cam_FarClip = 1000\<rparr>"

definition example_eye_camera :: EyeCamera where
  "example_eye_camera = \<lparr>cam_Orientation = quat_identity, cam_EyePoint = Vec3 0 0 0,
                          cam_NearClip = 1 / 10, cam_FarClip = 1000,
                          mOvrProjection = mat4_identity\<rparr>"

definition example_layer :: ovrLayerEyeFov where
  "example_layer =
     \<lparr>Header_Type = 0, Header_Flags = 0,
      ColorTexture = (null_TextureSet, null_TextureSet),
      Viewport = (\<lparr>Pos = IVec2 0 0, Size = \<lparr>size_w = 0, size_h = 0\<rparr>\<rparr>,
                  \<lparr>Pos = IVec2 0 0, Size = \<lparr>size_w = 0, size_h = 0\<rparr>\<rparr>),
      layer_Fov = (example_fov_left, example_fov_left),
      RenderPose = (example_pose, example_pose)\<rparr>"

text \<open>
  A session as the constructor leaves it when a device is found (no window, head scale
  1, screen percentage 1, settings to be flushed), with the host camera at (0, 0, 1)
  looking down \<open>-Z\<close>.
\<close>

definition example_rift :: OculusRift where
  "example_rift =
     \<lparr>mWindow = None, mHeadScale = 1, mScreenPercentage = 1, mMirrorPercentage = 1 / 2,
      mHmdCaps = 640, mTrackingCaps = 112, mHmdSettingsChanged = True,
      mIsExtended = False, mIsMirrrored = True, mIsMonoscopic = False,
      mUsePositionalTracking = True, mHmd = Some example_hmd,
      mHostCamera = example_camera, mHmdEyeCamera = example_eye_camera,
      mEye = ovrEye_Left,
      mEyeRenderDesc = (\<lparr>Fov = example_fov_left, HmdToEyeViewOffset = Vec3 0 0 0\<rparr>,
                        \<lparr>Fov = example_fov_left, HmdToEyeViewOffset = Vec3 0 0 0\<rparr>),
      mEyeViewOffset = (Vec3 0 0 0, Vec3 0 0 0),
      mEyeRenderPose = (example_pose, example_pose),
      mLayer = example_layer,
      mRenderBuffer = None, mDepthBuffer = None, mMirrorTexture = None,
      mViewMatrix = mat4_identity, mInverseViewMatrix = mat4_identity,
      mProjectionMatrix = mat4_identity,
      mViewMatrixCached = False, mInverseViewMatrixCached = False,
      mProjectionCached = False\<rparr>"

definition example_gl :: gl_state where
  "example_gl = \<lparr>gl_viewport = (IVec2 0 0, IVec2 0 0), gl_modelMatrix = mat4_identity,
                  gl_viewMatrix = mat4_identity, gl_projectionMatrix = mat4_identity,
                  gl_renderSurface = None\<rparr>"

definition example_world :: world where
  "example_world = \<lparr>rift = example_rift, windows = example_windows, ovr_calls = [],
                     gl = example_gl\<rparr>"

text \<open>The sample world attached to window 0.\<close>

definition example_attached :: world where
  "example_attached = snd (initialize example_sdk (Some 0) example_world)"

text \<open>
  The first frame of the attached sample world, and the frame after monoscopic mode
  was switched on.
\<close>

definition example_frame :: world where
  "example_frame = projr (startDrawFn example_sdk example_tracked example_attached)"

definition example_mono_frame :: world where
  "example_mono_frame =
     projr (startDrawFn example_sdk example_tracked (enableMonoscopic True example_frame))"

text \<open>The first frame of the sample world after \<open>bind\<close>: mid-frame.\<close>

definition example_bound :: world where
  "example_bound = projr (bind example_frame)"




section \<open>Helper facts\<close>

lemmas ex_defs = example_world_def example_rift_def example_camera_def
  example_eye_camera_def example_sdk_def example_tracked_def example_untracked_def

lemma toMat4_w_irrelevant:
  "vec3_of (mat4_mul_vec4 (toMat4 q) (vec4_of p 1)) =
   vec3_of (mat4_mul_vec4 (toMat4 q) (vec4_of p 0))"
  by (simp add: toMat4_def mat4_mul_vec4_def vec4_of_def vec3_of_def vec4_add_def
      vec4_smul_def Let_def)

lemma vec4_of_Vec3: "vec4_of (Vec3 a b c) w = Vec4 a b c w"
  by (simp add: vec4_of_def)

lemma getViewMatrix_miss:
  "\<not> mViewMatrixCached (rift W) \<Longrightarrow> fst (getViewMatrix sdk ts W) = spec_viewMatrix_of sdk ts W"
  by (simp add: getViewMatrix_def spec_viewMatrix_of_def spec_viewMatrix_def Let_def
      rotate_by_def isTracked_def isPositionalTrackingEnabled_def toMat4_w_irrelevant
      vec4_of_Vec3 conj_ac)

lemma getViewMatrix_miss_snd:
  "\<not> mViewMatrixCached (rift W) \<Longrightarrow>
   snd (getViewMatrix sdk ts W) =
     W\<lparr>rift := (rift W)\<lparr>mViewMatrix := spec_viewMatrix_of sdk ts W,
                          mViewMatrixCached := True\<rparr>\<rparr>"
  using getViewMatrix_miss [of W sdk ts]
  by (simp add: getViewMatrix_def Let_def)

lemma getViewMatrix_hit:
  "mViewMatrixCached (rift W) \<Longrightarrow> getViewMatrix sdk ts W = (mViewMatrix (rift W), W)"
  by (simp add: getViewMatrix_def)

lemma lookAt_example:
  "lookAt (Vec3 0 0 1) (Vec3 0 0 0) (Vec3 0 1 0) =
   Mat4 (Vec4 1 0 0 0) (Vec4 0 1 0 0) (Vec4 0 0 1 0) (Vec4 0 0 (- 1) 1)"
  by (simp add: lookAt_def normalize3_def vec3_sub_def cross_def dot3_def vec3_smul_def
      Let_def)

lemma spec_viewMatrix_example:
  "spec_viewMatrix quat_identity (Vec3 0 0 1) quat_identity (Vec3 0 0 0) 1 t =
   lookAt (Vec3 0 0 1) (Vec3 0 0 0) (Vec3 0 1 0)"
  by (simp add: spec_viewMatrix_def quat_identity_def toMat4_def mat4_mul_def
      mat4_mul_vec4_def vec4_add_def vec4_smul_def rotate_by_def vec4_of_def vec3_of_def
      vec3_add_def Let_def scale_def lookAt_example)

lemma getProjectionMatrix_miss:
  "\<not> mProjectionCached (rift W) \<Longrightarrow>
   getProjectionMatrix W = (mOvrProjection (mHmdEyeCamera (rift W)),
      W\<lparr>rift := (rift W)\<lparr>mProjectionMatrix := mOvrProjection (mHmdEyeCamera (rift W)), mProjectionCached := True\<rparr>\<rparr>)"
  by (simp add: getProjectionMatrix_def EyeCamera_getProjectionMatrix_def Let_def)

lemma getProjectionMatrix_hit:
  "mProjectionCached (rift W) \<Longrightarrow> getProjectionMatrix W = (mProjectionMatrix (rift W), W)"
  by (simp add: getProjectionMatrix_def)

lemma getInverseViewMatrix_miss:
  "\<not> mInverseViewMatrixCached (rift W) \<Longrightarrow>
   fst (getInverseViewMatrix gi sdk ts W) = gi (fst (getViewMatrix sdk ts W))"
  by (simp add: getInverseViewMatrix_def Let_def split: prod.splits)

lemma getViewMatrix_pair:
  "getViewMatrix sdk ts W =
     (if mViewMatrixCached (rift W) then (mViewMatrix (rift W), W)
      else (spec_viewMatrix_of sdk ts W,
            W\<lparr>rift := (rift W)\<lparr>mViewMatrix := spec_viewMatrix_of sdk ts W, mViewMatrixCached := True\<rparr>\<rparr>))"
proof (cases "mViewMatrixCached (rift W)")
  case True
  then show ?thesis by (simp add: getViewMatrix_hit)
next
  case False
  then show ?thesis
    using getViewMatrix_miss[OF False, of sdk ts] getViewMatrix_miss_snd[OF False, of sdk ts]
    by (simp add: prod_eq_iff)
qed

lemma getInverseViewMatrix_pair:
  "getInverseViewMatrix gi sdk ts W =
     (if mInverseViewMatrixCached (rift W) then (mInverseViewMatrix (rift W), W)
      else (gi (fst (getViewMatrix sdk ts W)),
            (snd (getViewMatrix sdk ts W))\<lparr>rift := (rift (snd (getViewMatrix sdk ts W)))
                \<lparr>mInverseViewMatrix := gi (fst (getViewMatrix sdk ts W)), mInverseViewMatrixCached := True\<rparr>\<rparr>))"
  by (simp add: getInverseViewMatrix_def Let_def split: prod.splits)

lemma getProjectionMatrix_pair:
  "getProjectionMatrix W =
     (if mProjectionCached (rift W) then (mProjectionMatrix (rift W), W)
      else (mOvrProjection (mHmdEyeCamera (rift W)),
      W\<lparr>rift := (rift W)\<lparr>mProjectionMatrix := mOvrProjection (mHmdEyeCamera (rift W)), mProjectionCached := True\<rparr>\<rparr>))"
  by (simp add: getProjectionMatrix_miss getProjectionMatrix_hit)

lemma spec_viewMatrix_of_cong:
  "mHostCamera (rift W') = mHostCamera (rift W) \<Longrightarrow> mHmdEyeCamera (rift W') = mHmdEyeCamera (rift W) \<Longrightarrow>
   mHeadScale (rift W') = mHeadScale (rift W) \<Longrightarrow> mUsePositionalTracking (rift W') = mUsePositionalTracking (rift W) \<Longrightarrow>
   spec_viewMatrix_of sdk ts W' = spec_viewMatrix_of sdk ts W"
  by (simp add: spec_viewMatrix_of_def)

lemma enableEye_unfold:
  "mHmd (rift W) = Some hmd \<Longrightarrow> eye_of_index i = Some k \<Longrightarrow>
   \<exists>W1. enableEye sdk ts i False W = Inr W1
     \<and> \<not> mProjectionCached (rift W1) \<and> \<not> mViewMatrixCached (rift W1)
     \<and> \<not> mInverseViewMatrixCached (rift W1)
     \<and> mOvrProjection (mHmdEyeCamera (rift W1)) =
         ovrMatrix4f_Projection sdk (Fov (at_eye (mEyeRenderDesc (rift W)) (at_eye (EyeRenderOrder hmd) k)))
           (cam_NearClip (mHmdEyeCamera (rift W))) (cam_FarClip (mHmdEyeCamera (rift W)))
     \<and> enableEye sdk ts i True W =
         Inr (W1\<lparr>rift := (rift W1)\<lparr>mViewMatrix := spec_viewMatrix_of sdk ts W1, mViewMatrixCached := True,
                                     mProjectionMatrix := mOvrProjection (mHmdEyeCamera (rift W1)),
                                     mProjectionCached := True\<rparr>,
                 gl := (gl W1)\<lparr>gl_viewport := getEyeViewport W1, gl_modelMatrix := mat4_identity,
                               gl_viewMatrix := spec_viewMatrix_of sdk ts W1,
                               gl_projectionMatrix := mOvrProjection (mHmdEyeCamera (rift W1))\<rparr>\<rparr>)"
  by (simp add: enableEye_def Let_def setEyePoint_def setOrientation_def
       getViewMatrix_pair getProjectionMatrix_pair)

lemma enableEye_fresh:
  assumes hmd: "mHmd (rift W) = Some hmd" and k: "eye_of_index i = Some k"
  shows "\<exists>W'. enableEye sdk ts i ap W = Inr W'
     \<and> (\<not> ap \<longrightarrow> \<not> mProjectionCached (rift W') \<and> \<not> mViewMatrixCached (rift W')
                  \<and> \<not> mInverseViewMatrixCached (rift W'))
     \<and> fst (getProjectionMatrix W') =
         ovrMatrix4f_Projection sdk (Fov (at_eye (mEyeRenderDesc (rift W)) (at_eye (EyeRenderOrder hmd) k)))
           (cam_NearClip (mHmdEyeCamera (rift W))) (cam_FarClip (mHmdEyeCamera (rift W)))
     \<and> fst (getViewMatrix sdk ts W') = spec_viewMatrix_of sdk ts W'
     \<and> fst (getInverseViewMatrix gi sdk ts W') = gi (spec_viewMatrix_of sdk ts W')"
proof -
  from enableEye_unfold [OF hmd k, of sdk ts] obtain W1 where
    f: "enableEye sdk ts i False W = Inr W1"
    and c: "\<not> mProjectionCached (rift W1)" "\<not> mViewMatrixCached (rift W1)" "\<not> mInverseViewMatrixCached (rift W1)"
    and p: "mOvrProjection (mHmdEyeCamera (rift W1)) =
         ovrMatrix4f_Projection sdk (Fov (at_eye (mEyeRenderDesc (rift W)) (at_eye (EyeRenderOrder hmd) k)))
           (cam_NearClip (mHmdEyeCamera (rift W))) (cam_FarClip (mHmdEyeCamera (rift W)))"
    and t: "enableEye sdk ts i True W =
         Inr (W1\<lparr>rift := (rift W1)\<lparr>mViewMatrix := spec_viewMatrix_of sdk ts W1, mViewMatrixCached := True,
                                     mProjectionMatrix := mOvrProjection (mHmdEyeCamera (rift W1)),
                                     mProjectionCached := True\<rparr>,
                 gl := (gl W1)\<lparr>gl_viewport := getEyeViewport W1, gl_modelMatrix := mat4_identity,
                               gl_viewMatrix := spec_viewMatrix_of sdk ts W1,
                               gl_projectionMatrix := mOvrProjection (mHmdEyeCamera (rift W1))\<rparr>\<rparr>)"
    by blast
  show ?thesis
  proof (cases ap)
    case False
    with f c p show ?thesis
      by (simp add: getProjectionMatrix_pair getViewMatrix_pair getInverseViewMatrix_pair)
  next
    case True
    with t c p show ?thesis
      by (simp add: getProjectionMatrix_pair getViewMatrix_pair getInverseViewMatrix_pair
          spec_viewMatrix_of_def)
  qed
qed

lemma enableEye_keeps:
  "enableEye sdk ts i ap W = Inr W' \<Longrightarrow>
     mHmd (rift W') = mHmd (rift W) \<and> mEyeRenderDesc (rift W') = mEyeRenderDesc (rift W)
   \<and> cam_NearClip (mHmdEyeCamera (rift W')) = cam_NearClip (mHmdEyeCamera (rift W))
   \<and> cam_FarClip (mHmdEyeCamera (rift W')) = cam_FarClip (mHmdEyeCamera (rift W))
   \<and> mScreenPercentage (rift W') = mScreenPercentage (rift W)
   \<and> mRenderBuffer (rift W') = mRenderBuffer (rift W)"
  by (auto simp add: enableEye_def Let_def setEyePoint_def setOrientation_def
       getViewMatrix_pair getProjectionMatrix_pair split: option.splits if_splits)

lemma call_keeps:
  assumes h: "call gi sdk c W = Inr W'"
  shows "mHmd (rift W') = mHmd (rift W) \<and> mEyeRenderDesc (rift W') = mEyeRenderDesc (rift W)
   \<and> cam_NearClip (mHmdEyeCamera (rift W')) = cam_NearClip (mHmdEyeCamera (rift W))
   \<and> cam_FarClip (mHmdEyeCamera (rift W')) = cam_FarClip (mHmdEyeCamera (rift W))
   \<and> mScreenPercentage (rift W') = mScreenPercentage (rift W)
   \<and> map_option tex_size (mRenderBuffer (rift W')) = map_option tex_size (mRenderBuffer (rift W))"
proof (cases c)
  case Bind
  with h show ?thesis
    by (auto simp add: bind_def Let_def split: option.splits if_splits)
next
  case Unbind
  with h show ?thesis by (auto simp add: unbind_def split: option.splits)
next
  case (EnableEye ts i ap)
  with h show ?thesis using enableEye_keeps [of sdk ts i ap W W'] by simp
next
  case (GetViewMatrix ts)
  with h show ?thesis by (auto simp add: getViewMatrix_pair)
next
  case (GetInverseViewMatrix ts)
  with h show ?thesis by (auto simp add: getInverseViewMatrix_pair getViewMatrix_pair)
next
  case GetProjectionMatrix
  with h show ?thesis by (auto simp add: getProjectionMatrix_pair)
next
  case (SetMirrorPercentage sp)
  with h show ?thesis by (auto simp add: setMirrorPercentage_def split: if_splits)
next
  case (EnableMirrored b)
  with h show ?thesis by (auto simp add: enableMirrored_def)
next
  case (SetHeadScale s)
  with h show ?thesis by (auto simp add: setHeadScale_def)
next
  case (FinishDraw r)
  with h show ?thesis by (auto simp add: finishDrawFn_def Let_def)
qed

lemma calls_keeps:
  "calls gi sdk cs W = Inr W' \<Longrightarrow>
     mHmd (rift W') = mHmd (rift W) \<and> mEyeRenderDesc (rift W') = mEyeRenderDesc (rift W)
   \<and> cam_NearClip (mHmdEyeCamera (rift W')) = cam_NearClip (mHmdEyeCamera (rift W))
   \<and> cam_FarClip (mHmdEyeCamera (rift W')) = cam_FarClip (mHmdEyeCamera (rift W))
   \<and> mScreenPercentage (rift W') = mScreenPercentage (rift W)
   \<and> map_option tex_size (mRenderBuffer (rift W')) = map_option tex_size (mRenderBuffer (rift W))"
proof (induction cs arbitrary: W)
  case Nil
  then show ?case by simp
next
  case (Cons c cs)
  then obtain W1 where 1: "call gi sdk c W = Inr W1" and 2: "calls gi sdk cs W1 = Inr W'"
    by (auto split: sum.splits)
  from call_keeps [OF 1] Cons.IH [OF 2] show ?case by simp
qed

lemma example_attached_rift:
  "mHmd (rift example_attached) = Some example_hmd"
  "mEyeRenderDesc (rift example_attached) =
     (\<lparr>Fov = example_fov_left, HmdToEyeViewOffset = example_offset ovrEye_Left\<rparr>,
      \<lparr>Fov = example_fov_right, HmdToEyeViewOffset = example_offset ovrEye_Right\<rparr>)"
  "mHmdEyeCamera (rift example_attached) = example_eye_camera"
  "mWindow (rift example_attached) = Some 0"
  "map_option tex_size (mRenderBuffer (rift example_attached)) = Some (IVec2 2000 1200)"
  "mHmdSettingsChanged (rift example_attached) = False"
  by (simp_all add: example_attached_def initialize_def example_world_def example_rift_def
      example_windows_def initializeFrameBuffer_def example_hmd_def frameBufferSize_def
      example_sdk_def updateHmdSettings_def needsNewBuffer_def Let_def new_TextureBuffer_def
      new_DepthBuffer_def)

lemma startDrawFn_offsets0:
  assumes "startDrawFn sdk hs W = Inr W'"
  shows "(isMonoscopic W \<longrightarrow>
           mEyeViewOffset (rift W') = (zero_x (fst (mEyeViewOffset (rift W))), zero_x (snd (mEyeViewOffset (rift W)))))
      \<and> (\<not> isMonoscopic W \<longrightarrow>
           mEyeViewOffset (rift W') = (HmdToEyeViewOffset (fst (mEyeRenderDesc (rift W'))),
                                      HmdToEyeViewOffset (snd (mEyeRenderDesc (rift W')))))
      \<and> mEyeRenderPose (rift W') = ovr_CalcEyePoses sdk (HeadPose hs) (mEyeViewOffset (rift W'))
      \<and> RenderPose (mLayer (rift W')) = mEyeRenderPose (rift W')"
  using assms
  by (auto simp add: startDrawFn_def initializeFrameBuffer_def isMonoscopic_def Let_def updateHmdSettings_def
      split: sum.splits option.splits if_splits)

lemma startDrawFn_returns:
  "mHmd (rift W) = Some hmd \<Longrightarrow> \<exists>W'. startDrawFn sdk hs W = Inr W'"
  by (simp add: startDrawFn_def initializeFrameBuffer_def Let_def)

lemma example_frame_Inr:
  "startDrawFn example_sdk example_tracked example_attached = Inr example_frame"
  using startDrawFn_returns [OF example_attached_rift(1), of example_sdk example_tracked]
  by (auto simp add: example_frame_def)

lemma example_frame_rift:
  "mHmd (rift example_frame) = Some example_hmd"
  "mEyeViewOffset (rift example_frame) = (example_offset ovrEye_Left, example_offset ovrEye_Right)"
  "mIsMonoscopic (rift example_frame) = False"
  "map_option tex_size (mRenderBuffer (rift example_frame)) = Some (IVec2 2000 1200)"
  by (simp_all add: example_frame_def startDrawFn_def isMonoscopic_def
      example_attached_def initialize_def example_world_def example_rift_def
      example_windows_def initializeFrameBuffer_def example_hmd_def frameBufferSize_def
      example_sdk_def updateHmdSettings_def needsNewBuffer_def Let_def new_TextureBuffer_def
      new_DepthBuffer_def)

lemma startDrawFn_flush:
  assumes hmd: "mHmd (rift W) = Some hmd"
  shows "\<exists>W'. startDrawFn sdk hs W = Inr W'
           \<and> \<not> mHmdSettingsChanged (rift W')
           \<and> ovr_calls W' = ovr_calls W
               @ (if needsNewBuffer (mRenderBuffer (rift W))
                       (frameBufferSize sdk hmd (mScreenPercentage (rift W)))
                  then [CreateSwapTextureSet (frameBufferSize sdk hmd (mScreenPercentage (rift W)))]
                  else [])
               @ (if mHmdSettingsChanged (rift W) then [SetEnabledCaps (mHmdCaps (rift W))]
                  else [])"
  using hmd
  by (simp add: startDrawFn_def initializeFrameBuffer_def updateHmdSettings_def Let_def)

lemma example_attached_settings:
  "mIsMirrrored (rift example_attached)"
  "mHmdCaps (rift example_attached) = 640"
  "\<not> needsNewBuffer (mRenderBuffer (rift example_attached))
       (frameBufferSize example_sdk example_hmd (mScreenPercentage (rift example_attached)))"
  "ovr_calls example_attached =
     [CreateSwapTextureSet (IVec2 2000 1200), SetEnabledCaps 640, ConfigureTracking 112 0]"
  by (simp_all add: example_attached_def initialize_def example_world_def example_rift_def
      example_windows_def initializeFrameBuffer_def example_hmd_def frameBufferSize_def
      example_sdk_def updateHmdSettings_def needsNewBuffer_def Let_def new_TextureBuffer_def
      new_DepthBuffer_def)


lemma example_attached_window:
  "win_isValid (windows example_attached 0)"
  "win_renderer (windows example_attached 0) =
       RendererGl (Some bound_startDrawFn) (Some bound_finishDrawFn)"
  "mRenderBuffer (rift example_attached) =
     Some \<lparr>tex_size = IVec2 2000 1200, TextureSet = \<lparr>TextureCount = 2, CurrentIndex = 0\<rparr>\<rparr>"
  by (simp_all add: example_attached_def initialize_def example_world_def example_rift_def
      example_windows_def initializeFrameBuffer_def example_hmd_def frameBufferSize_def
      example_sdk_def updateHmdSettings_def needsNewBuffer_def Let_def new_TextureBuffer_def
      new_DepthBuffer_def)

lemma startDrawFn_size:
  assumes hmd: "mHmd (rift W) = Some hmd"
  shows "\<exists>W'. startDrawFn sdk hs W = Inr W'
           \<and> map_option tex_size (mRenderBuffer (rift W')) =
               Some (frameBufferSize sdk hmd (mScreenPercentage (rift W)))"
  using hmd
  by (auto simp add: startDrawFn_def initializeFrameBuffer_def updateHmdSettings_def Let_def
      needsNewBuffer_def new_TextureBuffer_def split: option.splits)

lemma example_bound_Inr: "bind example_frame = Inr example_bound"
  by (simp add: example_bound_def bind_def example_frame_def startDrawFn_def isMonoscopic_def
      example_attached_def initialize_def example_world_def example_rift_def
      example_windows_def initializeFrameBuffer_def example_hmd_def frameBufferSize_def
      example_sdk_def updateHmdSettings_def needsNewBuffer_def Let_def new_TextureBuffer_def
      new_DepthBuffer_def)

lemma example_bound_rift:
  "mHmd (rift example_bound) = Some example_hmd"
  "map_option tex_size (mRenderBuffer (rift example_bound)) = Some (IVec2 2000 1200)"
  using call_keeps [of gi sdk Bind example_frame example_bound] example_bound_Inr
  by (simp_all add: example_frame_rift)

lemma example_frameBufferSize:
  "frameBufferSize example_sdk example_hmd (5 / 4) = IVec2 2500 1500"
  by (simp add: frameBufferSize_def example_sdk_def)

section \<open>The view matrix (C1)\<close>

text \<open>
  C1, as the code has it. \<open>getViewMatrix\<close> memoises. When the view-matrix cache flag is
  clear (every \<open>enableEye\<close> clears it first), the matrix returned is the specification's
  \<open>lookAt(eye, eye + forward, up) * scale(1 / headScale)\<close> for the cached host and eye
  cameras and head scale, with the tracked position added only when positional tracking
  is enabled and the device reports the position connected and tracked; the matrix is
  stored and the flag set. When the flag is set, the stored matrix is returned as it
  is. For identity orientations, host eye point (0, 0, 1), tracked position (0, 0, 0)
  and head scale 1 the computed matrix is \<open>lookAt((0,0,1), (0,0,0), (0,1,0))\<close>.
\<close>

theorem getViewMatrix_derivation:
  "(\<not> mViewMatrixCached (rift W) \<longrightarrow>
      fst (getViewMatrix sdk ts W) = spec_viewMatrix_of sdk ts W
    \<and> mViewMatrixCached (rift (snd (getViewMatrix sdk ts W)))
    \<and> mViewMatrix (rift (snd (getViewMatrix sdk ts W))) = spec_viewMatrix_of sdk ts W)
 \<and> (mViewMatrixCached (rift W) \<longrightarrow> getViewMatrix sdk ts W = (mViewMatrix (rift W), W))
 \<and> (\<not> mViewMatrixCached (rift W)
      \<and> cam_Orientation (mHostCamera (rift W)) = quat_identity
      \<and> cam_Orientation (mHmdEyeCamera (rift W)) = quat_identity
      \<and> cam_EyePoint (mHostCamera (rift W)) = Vec3 0 0 1
      \<and> cam_EyePoint (mHmdEyeCamera (rift W)) = Vec3 0 0 0
      \<and> mHeadScale (rift W) = 1 \<longrightarrow>
      fst (getViewMatrix sdk ts W) = lookAt (Vec3 0 0 1) (Vec3 0 0 0) (Vec3 0 1 0))"
proof (intro conjI impI)
  assume "\<not> mViewMatrixCached (rift W)"
  then show "fst (getViewMatrix sdk ts W) = spec_viewMatrix_of sdk ts W"
    by (rule getViewMatrix_miss)
next
  assume "\<not> mViewMatrixCached (rift W)"
  then show "mViewMatrixCached (rift (snd (getViewMatrix sdk ts W)))"
    by (simp add: getViewMatrix_miss_snd)
next
  assume "\<not> mViewMatrixCached (rift W)"
  then show "mViewMatrix (rift (snd (getViewMatrix sdk ts W))) = spec_viewMatrix_of sdk ts W"
    by (simp add: getViewMatrix_miss_snd)
next
  assume "mViewMatrixCached (rift W)"
  then show "getViewMatrix sdk ts W = (mViewMatrix (rift W), W)"
    by (rule getViewMatrix_hit)
next
  assume a: "\<not> mViewMatrixCached (rift W)
      \<and> cam_Orientation (mHostCamera (rift W)) = quat_identity
      \<and> cam_Orientation (mHmdEyeCamera (rift W)) = quat_identity
      \<and> cam_EyePoint (mHostCamera (rift W)) = Vec3 0 0 1
      \<and> cam_EyePoint (mHmdEyeCamera (rift W)) = Vec3 0 0 0
      \<and> mHeadScale (rift W) = 1"
  then have "fst (getViewMatrix sdk ts W) = spec_viewMatrix_of sdk ts W"
    by (simp add: getViewMatrix_miss)
  with a show "fst (getViewMatrix sdk ts W) = lookAt (Vec3 0 0 1) (Vec3 0 0 0) (Vec3 0 1 0)"
    by (simp add: spec_viewMatrix_of_def spec_viewMatrix_example)
qed

text \<open>
  The sample world has the specification's values and a clear flag: the matrix is the
  translation by (0, 0, -1), and the flag is set afterwards.
\<close>

theorem getViewMatrix_derivation_witness:
  "\<not> mViewMatrixCached (rift example_world)
   \<and> fst (getViewMatrix example_sdk example_tracked example_world)
       = Mat4 (Vec4 1 0 0 0) (Vec4 0 1 0 0) (Vec4 0 0 1 0) (Vec4 0 0 (- 1) 1)
   \<and> mViewMatrixCached (rift (snd (getViewMatrix example_sdk example_tracked example_world)))"
proof -
  have pre: "\<not> mViewMatrixCached (rift example_world)
      \<and> cam_Orientation (mHostCamera (rift example_world)) = quat_identity
      \<and> cam_Orientation (mHmdEyeCamera (rift example_world)) = quat_identity
      \<and> cam_EyePoint (mHostCamera (rift example_world)) = Vec3 0 0 1
      \<and> cam_EyePoint (mHmdEyeCamera (rift example_world)) = Vec3 0 0 0
      \<and> mHeadScale (rift example_world) = 1"
    by (simp add: ex_defs)
  from getViewMatrix_derivation [of example_world example_sdk example_tracked] pre
  have "fst (getViewMatrix example_sdk example_tracked example_world)
          = lookAt (Vec3 0 0 1) (Vec3 0 0 0) (Vec3 0 1 0)"
    and "mViewMatrixCached (rift (snd (getViewMatrix example_sdk example_tracked example_world)))"
    by blast+
  with pre show ?thesis by (simp add: lookAt_example)
qed

text \<open>
  The claim as written, for every state, fails once the flag is set: after a query has
  filled the cache, \<open>setHeadScale 2\<close> changes the head scale without clearing the flag,
  and the next query still returns the matrix computed for head scale 1.
\<close>

theorem getViewMatrix_stale_counterexample:
  "fst (getViewMatrix example_sdk example_tracked
          (setHeadScale 2 (snd (getViewMatrix example_sdk example_tracked example_world))))
   \<noteq> spec_viewMatrix_of example_sdk example_tracked
          (setHeadScale 2 (snd (getViewMatrix example_sdk example_tracked example_world)))"
proof -
  have m: "\<not> mViewMatrixCached (rift example_world)"
    by (simp add: ex_defs)
  have s: "spec_viewMatrix_of example_sdk example_tracked example_world =
           Mat4 (Vec4 1 0 0 0) (Vec4 0 1 0 0) (Vec4 0 0 1 0) (Vec4 0 0 (- 1) 1)"
    by (simp add: spec_viewMatrix_of_def ex_defs spec_viewMatrix_example lookAt_example)
  have l: "fst (getViewMatrix example_sdk example_tracked
             (setHeadScale 2 (snd (getViewMatrix example_sdk example_tracked example_world))))
           = Mat4 (Vec4 1 0 0 0) (Vec4 0 1 0 0) (Vec4 0 0 1 0) (Vec4 0 0 (- 1) 1)"
    by (simp add: getViewMatrix_miss_snd [OF m] s setHeadScale_def getViewMatrix_hit)
  have r: "spec_viewMatrix_of example_sdk example_tracked
             (setHeadScale 2 (snd (getViewMatrix example_sdk example_tracked example_world)))
           = Mat4 (Vec4 (1 / 2) 0 0 0) (Vec4 0 (1 / 2) 0 0) (Vec4 0 0 (1 / 2) 0)
                  (Vec4 0 0 (- 1) 1)"
    apply (simp add: getViewMatrix_miss_snd [OF m] setHeadScale_def spec_viewMatrix_of_def)
    apply (simp add: ex_defs spec_viewMatrix_def quat_identity_def toMat4_def mat4_mul_def
        mat4_mul_vec4_def vec4_add_def vec4_smul_def rotate_by_def vec4_of_def vec3_of_def
        vec3_add_def Let_def scale_def lookAt_example)
    done
  show ?thesis by (simp add: l r)
qed

section \<open>Cache invalidation across an eye switch (C2)\<close>




section \<open>View offsets at the start of a frame (C3)\<close>

text \<open>
  C3, as the code has it. With a device present \<open>startDrawFn\<close> returns, and the eye
  poses it stores are those the device derives from the head pose and the view offsets
  it has just set. With monoscopic mode active only the x-component of each eye's
  offset is set to 0; the y- and z-components keep the values they had before the
  frame. With monoscopic mode inactive the offsets are the ones in the device's render
  descriptors.
\<close>

theorem startDrawFn_view_offsets:
  assumes hmd: "mHmd (rift W) = Some hmd"
  shows "\<exists>W'. startDrawFn sdk hs W = Inr W'
     \<and> (isMonoscopic W \<longrightarrow>
          vx (fst (mEyeViewOffset (rift W'))) = 0 \<and> vx (snd (mEyeViewOffset (rift W'))) = 0
        \<and> vy (fst (mEyeViewOffset (rift W'))) = vy (fst (mEyeViewOffset (rift W)))
        \<and> vz (fst (mEyeViewOffset (rift W'))) = vz (fst (mEyeViewOffset (rift W)))
        \<and> vy (snd (mEyeViewOffset (rift W'))) = vy (snd (mEyeViewOffset (rift W)))
        \<and> vz (snd (mEyeViewOffset (rift W'))) = vz (snd (mEyeViewOffset (rift W))))
     \<and> (\<not> isMonoscopic W \<longrightarrow>
          mEyeViewOffset (rift W') =
            (HmdToEyeViewOffset (fst (mEyeRenderDesc (rift W'))),
             HmdToEyeViewOffset (snd (mEyeRenderDesc (rift W')))))
     \<and> mEyeRenderPose (rift W') =
          ovr_CalcEyePoses sdk (HeadPose hs) (mEyeViewOffset (rift W'))"
proof -
  from startDrawFn_returns [OF hmd] obtain W' where r: "startDrawFn sdk hs W = Inr W'"
    by blast
  from startDrawFn_offsets0 [OF r] r show ?thesis
    by (auto simp add: zero_x_def)
qed

text \<open>The frame after monoscopic mode was switched on in the sample world.\<close>

theorem startDrawFn_view_offsets_witness:
  "isMonoscopic (enableMonoscopic True example_frame)
   \<and> startDrawFn example_sdk example_tracked (enableMonoscopic True example_frame)
       = Inr example_mono_frame
   \<and> vx (fst (mEyeViewOffset (rift example_mono_frame))) = 0
   \<and> vx (snd (mEyeViewOffset (rift example_mono_frame))) = 0
   \<and> vy (fst (mEyeViewOffset (rift example_mono_frame))) = 1 / 100"
proof -
  have h: "mHmd (rift (enableMonoscopic True example_frame)) = Some example_hmd"
    by (simp add: enableMonoscopic_def example_frame_rift)
  have m: "isMonoscopic (enableMonoscopic True example_frame)"
    by (simp add: enableMonoscopic_def isMonoscopic_def)
  from startDrawFn_view_offsets [OF h, of example_sdk example_tracked] m
  show ?thesis
    by (auto simp add: example_mono_frame_def enableMonoscopic_def example_frame_rift
        example_offset_def)
qed

text \<open>
  The claim as written, that both offsets are the zero vector whatever the device
  reports, fails: the sample device reports offsets with non-zero y and z, the first
  frame copies them, and the monoscopic frame that follows zeroes x only.
\<close>

theorem monoscopic_offsets_counterexample:
  "startDrawFn example_sdk example_tracked example_attached = Inr example_frame
   \<and> isMonoscopic (enableMonoscopic True example_frame)
   \<and> startDrawFn example_sdk example_tracked (enableMonoscopic True example_frame)
       = Inr example_mono_frame
   \<and> mEyeViewOffset (rift example_mono_frame)
       = (Vec3 0 (1 / 100) (1 / 50), Vec3 0 (1 / 100) (1 / 50))
   \<and> mEyeViewOffset (rift example_mono_frame) \<noteq> (Vec3 0 0 0, Vec3 0 0 0)"
proof -
  have h: "mHmd (rift (enableMonoscopic True example_frame)) = Some example_hmd"
    by (simp add: enableMonoscopic_def example_frame_rift)
  have m: "isMonoscopic (enableMonoscopic True example_frame)"
    by (simp add: enableMonoscopic_def isMonoscopic_def)
  from startDrawFn_returns [OF h, of example_sdk example_tracked]
  have r: "startDrawFn example_sdk example_tracked (enableMonoscopic True example_frame)
       = Inr example_mono_frame"
    by (auto simp add: example_mono_frame_def)
  from startDrawFn_offsets0 [OF r] m
  have o: "mEyeViewOffset (rift example_mono_frame)
       = (Vec3 0 (1 / 100) (1 / 50), Vec3 0 (1 / 100) (1 / 50))"
    by (simp add: enableMonoscopic_def example_frame_rift example_offset_def zero_x_def)
  from example_frame_Inr m r o show ?thesis by simp
qed

section \<open>Settings setters and the commit point (C4)\<close>

text \<open>
  C4, as the code has it. No setter makes a device call. \<open>setScreenPercentage\<close> and
  \<open>setMirrorPercentage\<close> (for a positive argument) only store the value and leave the
  settings-changed flag as it was; \<open>enableMirrored\<close> records the flag exactly when
  the value changes; the monoscopic and positional-tracking toggles, as the
  specification words them, store the value and record the flag. The capability set
  is sent to the device by \<open>startDrawFn\<close>, once, exactly when the flag is set, and
  the flag is clear afterwards.
\<close>

theorem setters_record_and_defer:
  "(0 < sp \<longrightarrow>
      (\<exists>W'. setScreenPercentage sp W = Inr W' \<and> mScreenPercentage (rift W') = sp
         \<and> mHmdSettingsChanged (rift W') = mHmdSettingsChanged (rift W)
         \<and> ovr_calls W' = ovr_calls W)
    \<and> (\<exists>W'. setMirrorPercentage sp W = Inr W' \<and> mMirrorPercentage (rift W') = sp
         \<and> mHmdSettingsChanged (rift W') = mHmdSettingsChanged (rift W)
         \<and> ovr_calls W' = ovr_calls W))
 \<and> mIsMirrrored (rift (enableMirrored b W)) = b
 \<and> mHmdSettingsChanged (rift (enableMirrored b W)) =
      (mHmdSettingsChanged (rift W) \<or> mIsMirrrored (rift W) \<noteq> b)
 \<and> ovr_calls (enableMirrored b W) = ovr_calls W
 \<and> mIsMonoscopic (rift (enableMonoscopic b W)) = b
 \<and> mHmdSettingsChanged (rift (enableMonoscopic b W))
 \<and> ovr_calls (enableMonoscopic b W) = ovr_calls W
 \<and> mUsePositionalTracking (rift (enablePositionalTracking b W)) = b
 \<and> mHmdSettingsChanged (rift (enablePositionalTracking b W))
 \<and> ovr_calls (enablePositionalTracking b W) = ovr_calls W
 \<and> (mHmd (rift W) = Some hmd \<longrightarrow>
      (\<exists>W'. startDrawFn sdk hs W = Inr W'
           \<and> \<not> mHmdSettingsChanged (rift W')
           \<and> ovr_calls W' = ovr_calls W
               @ (if needsNewBuffer (mRenderBuffer (rift W))
                       (frameBufferSize sdk hmd (mScreenPercentage (rift W)))
                  then [CreateSwapTextureSet (frameBufferSize sdk hmd (mScreenPercentage (rift W)))]
                  else [])
               @ (if mHmdSettingsChanged (rift W) then [SetEnabledCaps (mHmdCaps (rift W))]
                  else [])))"
proof (intro conjI impI)
  assume "mHmd (rift W) = Some hmd"
  then show "\<exists>W'. startDrawFn sdk hs W = Inr W'
           \<and> \<not> mHmdSettingsChanged (rift W')
           \<and> ovr_calls W' = ovr_calls W
               @ (if needsNewBuffer (mRenderBuffer (rift W))
                       (frameBufferSize sdk hmd (mScreenPercentage (rift W)))
                  then [CreateSwapTextureSet (frameBufferSize sdk hmd (mScreenPercentage (rift W)))]
                  else [])
               @ (if mHmdSettingsChanged (rift W) then [SetEnabledCaps (mHmdCaps (rift W))]
                  else [])"
    by (rule startDrawFn_flush)
qed (simp_all add: setScreenPercentage_def setMirrorPercentage_def enableMirrored_def
      enableMonoscopic_def enablePositionalTracking_def)

text \<open>
  On the attached sample world, whose flag is clear: a new screen percentage leaves it
  clear and calls nothing; switching mirroring off records it, and the next
  \<open>startDrawFn\<close> sends the capabilities.
\<close>

theorem setters_record_and_defer_witness:
  "(0::real) < 5 / 4
   \<and> (\<exists>W'. setScreenPercentage (5 / 4) example_attached = Inr W'
          \<and> mScreenPercentage (rift W') = 5 / 4
          \<and> \<not> mHmdSettingsChanged (rift W')
          \<and> ovr_calls W' = ovr_calls example_attached)
   \<and> mHmdSettingsChanged (rift (enableMirrored False example_attached))
   \<and> ovr_calls (enableMirrored False example_attached) = ovr_calls example_attached
   \<and> (\<exists>W'. startDrawFn example_sdk example_tracked (enableMirrored False example_attached)
              = Inr W'
          \<and> \<not> mHmdSettingsChanged (rift W')
          \<and> ovr_calls W' = ovr_calls example_attached @ [SetEnabledCaps 640])"
proof -
  let ?M = "enableMirrored False example_attached"
  have M: "mHmd (rift ?M) = Some example_hmd" "mHmdCaps (rift ?M) = 640"
    "mRenderBuffer (rift ?M) = mRenderBuffer (rift example_attached)"
    "mScreenPercentage (rift ?M) = mScreenPercentage (rift example_attached)"
    by (simp_all add: enableMirrored_def example_attached_rift example_attached_settings)
  have p: "(0::real) < 5 / 4" by simp
  from setters_record_and_defer [of "5 / 4" example_attached False example_hmd
      example_sdk example_tracked] p
  have 1: "\<exists>W'. setScreenPercentage (5 / 4) example_attached = Inr W'
          \<and> mScreenPercentage (rift W') = 5 / 4
          \<and> \<not> mHmdSettingsChanged (rift W')
          \<and> ovr_calls W' = ovr_calls example_attached"
    and 2: "mHmdSettingsChanged (rift ?M)" "ovr_calls ?M = ovr_calls example_attached"
    by (simp_all add: example_attached_rift example_attached_settings)
  from setters_record_and_defer [of "5 / 4" ?M False example_hmd example_sdk example_tracked]
    M 2
  have 3: "\<exists>W'. startDrawFn example_sdk example_tracked ?M = Inr W'
          \<and> \<not> mHmdSettingsChanged (rift W')
          \<and> ovr_calls W' = ovr_calls example_attached @ [SetEnabledCaps 640]"
    by (simp add: example_attached_settings)
  from p 1 2 3 show ?thesis by simp
qed

text \<open>
  The claim as written, that every setter records the flag, fails for
  \<open>setScreenPercentage\<close>: the flag is clear before and after.
\<close>

theorem setScreenPercentage_no_flag_counterexample:
  "\<not> mHmdSettingsChanged (rift example_attached)
   \<and> setScreenPercentage (5 / 4) example_attached
       = Inr (example_attached\<lparr>rift := (rift example_attached)\<lparr>mScreenPercentage := 5 / 4\<rparr>\<rparr>)
   \<and> \<not> mHmdSettingsChanged
          (rift (example_attached\<lparr>rift := (rift example_attached)\<lparr>mScreenPercentage := 5 / 4\<rparr>\<rparr>))"
  by (simp add: setScreenPercentage_def example_attached_rift)

section \<open>Attaching to a window (C5)\<close>




section \<open>Detaching (C6, C7)\<close>

text \<open>
  C6, as the code has it. \<open>detachFromWindow\<close> on a session attached to a valid window
  unregisters both render hooks and drops the window reference; it makes no device
  call and leaves the render target, the depth buffer, the mirror texture and the
  device handle as they are. These are released by the destructor, which detaches
  first and then, given a render buffer, destroys the mirror texture, the swap texture
  set and the device handle.
\<close>

theorem detachFromWindow_effect:
  "(mWindow (rift W) = Some i \<and> win_isValid (windows W i) \<longrightarrow>
      mWindow (rift (detachFromWindow W)) = None
    \<and> (win_renderer (windows W i) = RendererGl s f \<longrightarrow>
         win_renderer (windows (detachFromWindow W) i) = RendererGl None None)
    \<and> mHmd (rift (detachFromWindow W)) = mHmd (rift W)
    \<and> mRenderBuffer (rift (detachFromWindow W)) = mRenderBuffer (rift W)
    \<and> mDepthBuffer (rift (detachFromWindow W)) = mDepthBuffer (rift W)
    \<and> mMirrorTexture (rift (detachFromWindow W)) = mMirrorTexture (rift W)
    \<and> ovr_calls (detachFromWindow W) = ovr_calls W)
 \<and> (mRenderBuffer (rift W) = Some rb \<longrightarrow>
      (\<exists>W'. destroy_OculusRift W = Inr W'
         \<and> windows W' = windows (detachFromWindow W)
         \<and> mWindow (rift W') = mWindow (rift (detachFromWindow W))
         \<and> mHmd (rift W') = None
         \<and> ovr_calls W' = ovr_calls W @ [DestroyMirrorTexture, DestroySwapTextureSet]
              @ (if mHmd (rift W) \<noteq> None then [Destroy] else [])))"
  by (auto simp add: detachFromWindow_def destroy_OculusRift_def Let_def
      split: option.splits Renderer.splits)

text \<open>Detaching, and destroying, the attached sample world.\<close>

theorem detachFromWindow_effect_witness:
  "mWindow (rift example_attached) = Some 0 \<and> win_isValid (windows example_attached 0)
   \<and> mWindow (rift (detachFromWindow example_attached)) = None
   \<and> win_renderer (windows (detachFromWindow example_attached) 0) = RendererGl None None
   \<and> mHmd (rift (detachFromWindow example_attached)) = Some example_hmd
   \<and> (\<exists>W'. destroy_OculusRift example_attached = Inr W' \<and> mHmd (rift W') = None
         \<and> ovr_calls W' = ovr_calls example_attached
              @ [DestroyMirrorTexture, DestroySwapTextureSet, Destroy])"
  using detachFromWindow_effect [of example_attached 0 "Some bound_startDrawFn"
      "Some bound_finishDrawFn"
      "\<lparr>tex_size = IVec2 2000 1200, TextureSet = \<lparr>TextureCount = 2, CurrentIndex = 0\<rparr>\<rparr>"]
  by (auto simp add: example_attached_rift example_attached_window)

text \<open>
  The claim as written, that detach releases the render target and destroys the device
  handle, fails on the attached sample world: both are still there after detach, and
  no destroy call was made.
\<close>

theorem detach_keeps_device_counterexample:
  "mWindow (rift example_attached) = Some 0 \<and> win_isValid (windows example_attached 0)
   \<and> mHmd (rift (detachFromWindow example_attached)) \<noteq> None
   \<and> mRenderBuffer (rift (detachFromWindow example_attached)) \<noteq> None
   \<and> Destroy \<notin> set (ovr_calls (detachFromWindow example_attached))
   \<and> DestroySwapTextureSet \<notin> set (ovr_calls (detachFromWindow example_attached))"
  by (simp add: detachFromWindow_def example_attached_rift example_attached_window
      example_attached_settings)

text \<open>
  C7. \<open>detachFromWindow\<close> cannot fail, and detaching twice leaves exactly the world
  that detaching once leaves.
\<close>

theorem detachFromWindow_idempotent:
  "detachFromWindow (detachFromWindow W) = detachFromWindow W"
  by (simp add: detachFromWindow_def split: option.splits)

theorem detachFromWindow_idempotent_witness:
  "detachFromWindow (detachFromWindow example_attached) = detachFromWindow example_attached
   \<and> mWindow (rift (detachFromWindow example_attached)) = None"
  using detachFromWindow_idempotent [of example_attached]
  by (simp add: detachFromWindow_def example_attached_rift example_attached_window)

section \<open>Frame submission (C8)\<close>

text \<open>
  C8. Whatever \<open>ovrHmd_SubmitFrame\<close> returns, \<open>finishDrawFn\<close> cannot fail and
  leaves the session (poses, render target, settings, caches), the windows and the
  OpenGL state untouched; the world it leaves does not depend on the result, so neither
  does the next \<open>startDrawFn\<close> nor any sequence of calls that follows.
\<close>

theorem finishDrawFn_ignores_result:
  "rift (finishDrawFn r W) = rift W
   \<and> windows (finishDrawFn r W) = windows W
   \<and> gl (finishDrawFn r W) = gl W
   \<and> finishDrawFn r W = finishDrawFn r' W
   \<and> startDrawFn sdk hs (finishDrawFn r W) = startDrawFn sdk hs (finishDrawFn r' W)
   \<and> calls gi sdk cs (finishDrawFn r W) = calls gi sdk cs (finishDrawFn r' W)"
  by (simp add: finishDrawFn_def Let_def)

theorem finishDrawFn_ignores_result_witness:
  "rift (finishDrawFn 1000 example_frame) = rift example_frame
   \<and> finishDrawFn 1000 example_frame = finishDrawFn 0 example_frame"
  using finishDrawFn_ignores_result [of 1000 example_frame 0]
  by blast

section \<open>When a new screen percentage takes effect (C9)\<close>

text \<open>
  C9. \<open>setScreenPercentage\<close> with a positive argument leaves the render buffer as it
  is, and so does every sequence of calls that can follow before the next frame begins
  (\<open>bind\<close>, \<open>enableEye\<close>, the matrix queries, the other setters, \<open>unbind\<close>,
  \<open>finishDrawFn\<close>): for as long as they succeed the render target keeps its size.
  With a device present the next \<open>startDrawFn\<close> returns, and then the render target
  has the size the device gives for the new screen percentage.
\<close>

theorem setScreenPercentage_deferred:
  assumes sp: "0 < sp" and hmd: "mHmd (rift W) = Some hmd"
  shows "\<exists>W1. setScreenPercentage sp W = Inr W1
     \<and> mRenderBuffer (rift W1) = mRenderBuffer (rift W)
     \<and> (\<forall>cs W2. calls gi sdk cs W1 = Inr W2 \<longrightarrow>
          map_option tex_size (mRenderBuffer (rift W2)) =
            map_option tex_size (mRenderBuffer (rift W))
        \<and> (\<exists>W3. startDrawFn sdk hs W2 = Inr W3
              \<and> map_option tex_size (mRenderBuffer (rift W3)) =
                  Some (frameBufferSize sdk hmd sp)))"
proof -
  let ?W1 = "W\<lparr>rift := (rift W)\<lparr>mScreenPercentage := sp\<rparr>\<rparr>"
  have 1: "setScreenPercentage sp W = Inr ?W1"
    using sp by (simp add: setScreenPercentage_def)
  have "map_option tex_size (mRenderBuffer (rift W2)) =
            map_option tex_size (mRenderBuffer (rift W))
        \<and> (\<exists>W3. startDrawFn sdk hs W2 = Inr W3
              \<and> map_option tex_size (mRenderBuffer (rift W3)) =
                  Some (frameBufferSize sdk hmd sp))"
    if cs: "calls gi sdk cs ?W1 = Inr W2" for cs W2
  proof -
    from calls_keeps [OF cs] hmd
    have k: "mHmd (rift W2) = Some hmd" "mScreenPercentage (rift W2) = sp"
      "map_option tex_size (mRenderBuffer (rift W2)) =
         map_option tex_size (mRenderBuffer (rift W))"
      by simp_all
    from startDrawFn_size [OF k(1), of sdk hs] k show ?thesis by simp
  qed
  with 1 show ?thesis by simp
qed

text \<open>
  Mid-frame in the sample world, the screen percentage goes from 1 to 5/4: the target
  stays 2000 by 1200 while both eyes are drawn and the frame is submitted, and is 2500
  by 1500 after the next \<open>startDrawFn\<close>.
\<close>

theorem setScreenPercentage_deferred_witness:
  "(0::real) < 5 / 4
   \<and> bind example_frame = Inr example_bound
   \<and> (\<exists>W1 W2 W3. setScreenPercentage (5 / 4) example_bound = Inr W1
         \<and> calls id example_sdk
             [EnableEye example_tracked 0 True, EnableEye example_tracked 1 True,
              Unbind, FinishDraw 1000] W1 = Inr W2
         \<and> map_option tex_size (mRenderBuffer (rift W2)) = Some (IVec2 2000 1200)
         \<and> startDrawFn example_sdk example_tracked W2 = Inr W3
         \<and> map_option tex_size (mRenderBuffer (rift W3)) = Some (IVec2 2500 1500))"
proof -
  have p: "(0::real) < 5 / 4" by simp
  from setScreenPercentage_deferred [OF p example_bound_rift(1), of id example_sdk example_tracked]
  obtain W1 where 1: "setScreenPercentage (5 / 4) example_bound = Inr W1"
    and r: "\<And>cs W2. calls id example_sdk cs W1 = Inr W2 \<Longrightarrow>
          map_option tex_size (mRenderBuffer (rift W2)) = Some (IVec2 2000 1200)
        \<and> (\<exists>W3. startDrawFn example_sdk example_tracked W2 = Inr W3
              \<and> map_option tex_size (mRenderBuffer (rift W3)) = Some (IVec2 2500 1500))"
    by (auto simp add: example_bound_rift example_frameBufferSize)
  have h1: "mHmd (rift W1) = Some example_hmd"
    using 1 p by (auto simp add: setScreenPercentage_def example_bound_rift)
  have i: "eye_of_index 0 = Some ovrEye_Left" "eye_of_index 1 = Some ovrEye_Right"
    by (simp_all add: eye_of_index_def)
  from enableEye_fresh [OF h1 i(1), of example_sdk example_tracked True id]
  obtain WA where A: "enableEye example_sdk example_tracked 0 True W1 = Inr WA" by blast
  from enableEye_keeps [OF A] h1 have hA: "mHmd (rift WA) = Some example_hmd" by simp
  from enableEye_fresh [OF hA i(2), of example_sdk example_tracked True id]
  obtain WB where B: "enableEye example_sdk example_tracked 1 True WA = Inr WB" by blast
  have "calls id example_sdk
             [EnableEye example_tracked 0 True, EnableEye example_tracked 1 True,
              Unbind, FinishDraw 1000] W1 = Inr (finishDrawFn 1000 (unbind WB))"
    by (simp add: A B)
  from r [OF this] 1 this p example_bound_Inr show ?thesis by blast
qed

section \<open>The eyes to draw (C10)\<close>

text \<open>
  C10. With a device handle and a valid attached window \<open>getEyes\<close> returns the two
  entries of the device's eye render order, in that order; otherwise it returns the
  empty list, and the per-eye iteration over it enables no eye and leaves the world
  unchanged.
\<close>

theorem getEyes_result:
  "(mHmd (rift W) = Some hmd \<and> isValid (windows W) (mWindow (rift W)) \<longrightarrow>
      getEyes W = [fst (EyeRenderOrder hmd), snd (EyeRenderOrder hmd)])
 \<and> (mHmd (rift W) = None \<or> \<not> isValid (windows W) (mWindow (rift W)) \<longrightarrow>
      getEyes W = [] \<and> drawEyes sdk ts W = Inr ([], W))"
  by (auto simp add: getEyes_def drawEyes_def split: option.splits)

text \<open>The sample world before and after attaching.\<close>

theorem getEyes_result_witness:
  "getEyes example_attached = [ovrEye_Left, ovrEye_Right]
   \<and> getEyes example_world = []
   \<and> drawEyes example_sdk example_tracked example_world = Inr ([], example_world)"
proof -
  have a: "mHmd (rift example_attached) = Some example_hmd
           \<and> isValid (windows example_attached) (mWindow (rift example_attached))"
    by (simp add: example_attached_rift example_attached_window isValid_def)
  have w: "\<not> isValid (windows example_world) (mWindow (rift example_world))"
    by (simp add: example_world_def example_rift_def isValid_def)
  from getEyes_result [of example_attached example_hmd example_sdk example_tracked] a
  have 1: "getEyes example_attached = [ovrEye_Left, ovrEye_Right]"
    by (simp add: example_hmd_def)
  from getEyes_result [of example_world example_hmd example_sdk example_tracked] w
  have 2: "getEyes example_world = []"
    "drawEyes example_sdk example_tracked example_world = Inr ([], example_world)"
    by simp_all
  from 1 2 show ?thesis by simp
qed

end
